theory Spec2Isabelle
  imports Complex_Main
begin

section \<open>The touch handler of tangram-ng: data model\<close>

text \<open>
  This theory embeds \<^verbatim>\<open>TouchHandler\<close> (core/src/util/touchHandler.cpp, in its latest
  revision with DPI thresholds, panning modes and gesture flags) and states the
  properties of its gesture state machine and of its kinetic update.

  Conventions of the embedding.
  \<^item> A C++ \<^verbatim>\<open>float\<close> is a \<^typ>\<open>real\<close>: rounding, infinities and NaN are not modelled,
    and a division by zero yields 0 as it does in HOL. The properties below are about the
    control flow and the algebra of the handler, not about rounding.
  \<^item> \<^verbatim>\<open>std::chrono::steady_clock::time_point\<close> is an \<^typ>\<open>int\<close> counting nanoseconds,
    the tick of the clock; \<^verbatim>\<open>duration_cast<milliseconds>\<close> truncates towards zero.
    A call of \<^verbatim>\<open>steady_clock::now()\<close> is an input of the function that makes it.
  \<^item> \<^verbatim>\<open>View\<close> and \<^verbatim>\<open>Map\<close> are collaborators whose code is not part of the sources at
    hand. The view is a value of an arbitrary type \<open>'v\<close> and its methods are the fields of
    a record of functions, passed as a parameter. Every call that the handler makes on
    the view, on the map or on a listener is also appended to \<open>calls\<close>, the trace of the
    handler's effects in program order.
  \<^item> The listeners are pure functions held in the state (\<open>None\<close> is the null pointer);
    the mutex that guards them has no effect on a single thread and is left out.
  \<^item> \<^verbatim>\<open>m_pointersDown\<close> is an \<^typ>\<open>int\<close>; the handler keeps it between 0 and 2, far from
    the bounds of a 32-bit integer.
\<close>

datatype TouchAction =
  POINTER_1_DOWN | POINTER_2_DOWN | MOVE | CANCEL | POINTER_1_UP | POINTER_2_UP

datatype GestureMode =
  SINGLE_POINTER_CLICK_GUESS
| DUAL_POINTER_CLICK_GUESS
| SINGLE_POINTER_PAN
| SINGLE_POINTER_ZOOM
| DUAL_POINTER_GUESS
| DUAL_POINTER_TILT
| DUAL_POINTER_ROTATE
| DUAL_POINTER_SCALE
| DUAL_POINTER_FREE

datatype PanningMode = FREE | STICKY | STICKY_FINAL

datatype ClickType = SINGLE | LONG | DOUBLE | DUAL

datatype ScreenPos = ScreenPos (pos_x: real) (pos_y: real)

datatype vec2 = vec2 (vec_x: real) (vec_y: real)

definition vec2_plus :: "vec2 \<Rightarrow> vec2 \<Rightarrow> vec2" where
  "vec2_plus a b = vec2 (vec_x a + vec_x b) (vec_y a + vec_y b)"

definition vec2_minus :: "vec2 \<Rightarrow> vec2 \<Rightarrow> vec2" where
  "vec2_minus a b = vec2 (vec_x a - vec_x b) (vec_y a - vec_y b)"

definition vec2_scale :: "real \<Rightarrow> vec2 \<Rightarrow> vec2" where
  "vec2_scale k a = vec2 (k * vec_x a) (k * vec_y a)"

text \<open>\<^verbatim>\<open>glm::length\<close>.\<close>

definition vec2_length :: "vec2 \<Rightarrow> real" where
  "vec2_length a = sqrt ((vec_x a)\<^sup>2 + (vec_y a)\<^sup>2)"

text \<open>\<^verbatim>\<open>glm::rotate(v, angle)\<close> of glm/gtx/rotate_vector.hpp.\<close>

definition vec2_rotate :: "vec2 \<Rightarrow> real \<Rightarrow> vec2" where
  "vec2_rotate v a =
     vec2 (vec_x v * cos a - vec_y v * sin a) (vec_x v * sin a + vec_y v * cos a)"

text \<open>\<^verbatim>\<open>glm::clamp(x, lo, hi)\<close>.\<close>

definition clamp :: "real \<Rightarrow> real \<Rightarrow> real \<Rightarrow> real" where
  "clamp v lo hi = min (max v lo) hi"

text \<open>
  \<^verbatim>\<open>std::atan2(y, x)\<close> on the reals: the angle of the point \<open>(x, y)\<close> in \<open>(-\<pi>, \<pi>]\<close>,
  and 0 at the origin.
\<close>

definition atan2 :: "real \<Rightarrow> real \<Rightarrow> real" where
  "atan2 b a =
     (if 0 < a then arctan (b / a)
      else if a < 0 then (if 0 \<le> b then arctan (b / a) + pi else arctan (b / a) - pi)
      else if 0 < b then pi / 2
      else if b < 0 then - (pi / 2)
      else 0)"

text \<open>The distance \<^verbatim>\<open>std::sqrt(std::pow(ax - bx, 2) + std::pow(ay - by, 2))\<close>.\<close>

definition pos_dist :: "ScreenPos \<Rightarrow> ScreenPos \<Rightarrow> real" where
  "pos_dist a b = sqrt ((pos_x a - pos_x b)\<^sup>2 + (pos_y a - pos_y b)\<^sup>2)"

subsection \<open>Constants\<close>

definition DAMPING_PAN :: real where "DAMPING_PAN = 4"
definition DAMPING_ZOOM :: real where "DAMPING_ZOOM = 6"
definition THRESHOLD_STOP_PAN :: real where "THRESHOLD_STOP_PAN = 24"
definition THRESHOLD_STOP_ZOOM :: real where "THRESHOLD_STOP_ZOOM = 5033165 / 16777216"
definition MAX_PITCH_FOR_PAN_LIMITING :: real where "MAX_PITCH_FOR_PAN_LIMITING = 75"
definition SINGLE_POINTER_ZOOM_SENSITIVITY :: real where
  "SINGLE_POINTER_ZOOM_SENSITIVITY = 5 / 1000"

definition ROTATION_SCALING_FACTOR_THRESHOLD_STICKY :: real where
  "ROTATION_SCALING_FACTOR_THRESHOLD_STICKY = 3 / 10"
definition TAP_MOVEMENT_THRESHOLD_INCHES :: real where
  "TAP_MOVEMENT_THRESHOLD_INCHES = 1 / 10"
definition GUESS_MAX_DELTA_Y_INCHES :: real where "GUESS_MAX_DELTA_Y_INCHES = 1"
definition GUESS_MIN_SWIPE_LENGTH_SAME_INCHES :: real where
  "GUESS_MIN_SWIPE_LENGTH_SAME_INCHES = 1 / 10"
definition GUESS_MIN_SWIPE_LENGTH_OPPOSITE_INCHES :: real where
  "GUESS_MIN_SWIPE_LENGTH_OPPOSITE_INCHES = 75 / 1000"
definition DEFAULT_DPI :: real where "DEFAULT_DPI = 160"

text \<open>
  \<^verbatim>\<open>THRESHOLD_STOP_ZOOM\<close> is written \<^verbatim>\<open>0.3f\<close> and is compared with a \<^verbatim>\<open>float\<close>: its value is
  the \<^verbatim>\<open>float\<close> nearest to 0.3, which is \<open>5033165 / 2\<^sup>2\<^sup>4\<close>.
\<close>

text \<open>Durations, in milliseconds as the header declares them.\<close>

definition DUAL_STOP_HOLD_DURATION :: int where "DUAL_STOP_HOLD_DURATION = 500"
definition DOUBLE_TAP_TIMEOUT :: int where "DOUBLE_TAP_TIMEOUT = 300"
definition LONG_PRESS_TIMEOUT :: int where "LONG_PRESS_TIMEOUT = 500"

text \<open>
  \<^verbatim>\<open>std::chrono::duration_cast<std::chrono::milliseconds>\<close> of a duration in
  nanoseconds: the quotient by \<open>10\<^sup>6\<close>, truncated towards zero.
\<close>

definition duration_cast_ms :: "int \<Rightarrow> int" where
  "duration_cast_ms d = (if 0 \<le> d then d div 1000000 else - ((- d) div 1000000))"

subsection \<open>The view and the trace of calls\<close>

record 'v View =
  view_pixelsPerMeter :: "'v \<Rightarrow> real"
  view_pixelScale :: "'v \<Rightarrow> real"
  view_getZoom :: "'v \<Rightarrow> real"
  view_getPitch :: "'v \<Rightarrow> real"
  view_getMaxPitch :: "'v \<Rightarrow> real"
  view_getHeight :: "'v \<Rightarrow> real"
  view_screenPositionToLngLat :: "'v \<Rightarrow> real \<Rightarrow> real \<Rightarrow> real"
  view_screenToGroundPlane :: "'v \<Rightarrow> real \<Rightarrow> real \<Rightarrow> real \<Rightarrow> vec2"
  view_translate :: "vec2 \<Rightarrow> 'v \<Rightarrow> 'v"
  view_zoom :: "real \<Rightarrow> 'v \<Rightarrow> 'v"
  view_yaw :: "real \<Rightarrow> 'v \<Rightarrow> 'v"
  view_pitch :: "real \<Rightarrow> 'v \<Rightarrow> 'v"
  map_handleDoubleTapGesture :: "real \<Rightarrow> real \<Rightarrow> bool \<Rightarrow> 'v \<Rightarrow> 'v"

text \<open>
  Modelled from the spec: \<open>view_screenPositionToLngLat\<close> is
  \<^verbatim>\<open>screenPositionToLngLat(x, y) \<rightarrow> elev\<close>, the elevation that the view writes through the
  pointer it is given (the handler uses nothing else of that call), and
  \<open>map_handleDoubleTapGesture\<close> is what \<^verbatim>\<open>Map::handleDoubleTapGesture\<close> does to the view.
\<close>

datatype call =
  Translate vec2
| Zoom real
| Yaw real
| Pitch real
| OnMapClick ClickType real real
| OnMapInteraction bool bool bool bool
| HandleDoubleTapGesture real real bool

subsection \<open>The state of the handler\<close>

record 'v TouchHandler =
  m_view :: 'v
  m_map :: bool
  m_dpi :: real
  m_panningMode :: PanningMode
  m_mapClickListener :: "(ClickType \<Rightarrow> real \<Rightarrow> real \<Rightarrow> bool) option"
  m_mapInteractionListener :: "(bool \<Rightarrow> bool \<Rightarrow> bool \<Rightarrow> bool \<Rightarrow> bool) option"
  m_zoomEnabled :: bool
  m_panEnabled :: bool
  m_doubleTapEnabled :: bool
  m_doubleTapDragEnabled :: bool
  m_tiltEnabled :: bool
  m_rotateEnabled :: bool
  m_gestureMode :: GestureMode
  m_pointersDown :: int
  m_noDualPointerYet :: bool
  m_interactionConsumed :: bool
  m_prevScreenPos1 :: ScreenPos
  m_prevScreenPos2 :: ScreenPos
  m_firstTapPos :: ScreenPos
  m_doubleTapStartPos :: ScreenPos
  m_swipe1 :: vec2
  m_swipe2 :: vec2
  m_dualPointerReleaseTime :: int
  m_firstTapTime :: int
  m_pointer1DownTime :: int
  m_singlePointerZoomStartZoom :: real
  m_velocityPan :: vec2
  m_velocityZoom :: real
  calls :: "call list"

text \<open>
  The constructor \<^verbatim>\<open>TouchHandler(View& _view, Map* _map)\<close>; \<open>now\<close> is the reading of the
  clock, the three readings that the constructor makes being taken as one. The four
  positions are default-constructed (\<^verbatim>\<open>ScreenPos()\<close> is the origin). The functions
  \<^verbatim>\<open>doubleTapZoom\<close> and \<^verbatim>\<open>singlePointerZoomStop\<close>, which nothing calls, are left out.
\<close>

definition TouchHandler_new :: "'v \<Rightarrow> bool \<Rightarrow> int \<Rightarrow> 'v TouchHandler" where
  "TouchHandler_new v mp now =
     \<lparr> m_view = v,
       m_map = mp,
       m_dpi = DEFAULT_DPI,
       m_panningMode = FREE,
       m_mapClickListener = None,
       m_mapInteractionListener = None,
       m_zoomEnabled = True,
       m_panEnabled = True,
       m_doubleTapEnabled = True,
       m_doubleTapDragEnabled = True,
       m_tiltEnabled = True,
       m_rotateEnabled = True,
       m_gestureMode = SINGLE_POINTER_CLICK_GUESS,
       m_pointersDown = 0,
       m_noDualPointerYet = True,
       m_interactionConsumed = False,
       m_prevScreenPos1 = ScreenPos 0 0,
       m_prevScreenPos2 = ScreenPos 0 0,
       m_firstTapPos = ScreenPos 0 0,
       m_doubleTapStartPos = ScreenPos 0 0,
       m_swipe1 = vec2 0 0,
       m_swipe2 = vec2 0 0,
       m_dualPointerReleaseTime = now,
       m_firstTapTime = now,
       m_pointer1DownTime = now,
       m_singlePointerZoomStartZoom = 0,
       m_velocityPan = vec2 0 0,
       m_velocityZoom = 0,
       calls = [] \<rparr>"

subsection \<open>Calls on the collaborators\<close>

definition call_translate :: "'v View \<Rightarrow> vec2 \<Rightarrow> 'v TouchHandler \<Rightarrow> 'v TouchHandler" where
  "call_translate V d s =
     s\<lparr> m_view := view_translate V d (m_view s), calls := calls s @ [Translate d] \<rparr>"

definition call_zoom :: "'v View \<Rightarrow> real \<Rightarrow> 'v TouchHandler \<Rightarrow> 'v TouchHandler" where
  "call_zoom V z s =
     s\<lparr> m_view := view_zoom V z (m_view s), calls := calls s @ [Zoom z] \<rparr>"

definition call_yaw :: "'v View \<Rightarrow> real \<Rightarrow> 'v TouchHandler \<Rightarrow> 'v TouchHandler" where
  "call_yaw V a s =
     s\<lparr> m_view := view_yaw V a (m_view s), calls := calls s @ [Yaw a] \<rparr>"

definition call_pitch :: "'v View \<Rightarrow> real \<Rightarrow> 'v TouchHandler \<Rightarrow> 'v TouchHandler" where
  "call_pitch V a s =
     s\<lparr> m_view := view_pitch V a (m_view s), calls := calls s @ [Pitch a] \<rparr>"

definition call_handleDoubleTapGesture ::
  "'v View \<Rightarrow> real \<Rightarrow> real \<Rightarrow> bool \<Rightarrow> 'v TouchHandler \<Rightarrow> 'v TouchHandler" where
  "call_handleDoubleTapGesture V px py out s =
     s\<lparr> m_view := map_handleDoubleTapGesture V px py out (m_view s),
        calls := calls s @ [HandleDoubleTapGesture px py out] \<rparr>"

section \<open>The kinetic update, cancel and the setters\<close>

definition setVelocity :: "real \<Rightarrow> vec2 \<Rightarrow> 'v TouchHandler \<Rightarrow> 'v TouchHandler" where
  "setVelocity z t s = s\<lparr> m_velocityPan := t, m_velocityZoom := z \<rparr>"

text \<open>\<^verbatim>\<open>update(_dt)\<close> returns \<^verbatim>\<open>isFlinging\<close> and the new state.\<close>

definition isFlinging :: "'v View \<Rightarrow> 'v TouchHandler \<Rightarrow> bool" where
  "isFlinging V s =
     (let velocityPanPixels =
            vec2_scale (view_pixelsPerMeter V (m_view s) / view_pixelScale V (m_view s))
              (m_velocityPan s)
      in vec2_length velocityPanPixels > THRESHOLD_STOP_PAN
         \<or> \<bar>m_velocityZoom s\<bar> > THRESHOLD_STOP_ZOOM)"

definition update :: "'v View \<Rightarrow> real \<Rightarrow> 'v TouchHandler \<Rightarrow> bool \<times> 'v TouchHandler" where
  "update V dt s =
     (if isFlinging V s then
        (let s1 = s\<lparr> m_velocityPan :=
                      vec2_minus (m_velocityPan s)
                        (vec2_scale (min (dt * DAMPING_PAN) 1) (m_velocityPan s)) \<rparr>;
             s2 = call_translate V
                    (vec2 (dt * vec_x (m_velocityPan s1)) (dt * vec_y (m_velocityPan s1))) s1;
             s3 = s2\<lparr> m_velocityZoom :=
                       m_velocityZoom s2 - min (dt * DAMPING_ZOOM) 1 * m_velocityZoom s2 \<rparr>;
             s4 = call_zoom V (m_velocityZoom s3 * dt) s3
         in (True, s4))
      else (False, s))"

definition cancel :: "'v TouchHandler \<Rightarrow> 'v TouchHandler" where
  "cancel s =
     (setVelocity 0 (vec2 0 0) s)
       \<lparr> m_gestureMode := SINGLE_POINTER_CLICK_GUESS,
         m_pointersDown := 0,
         m_interactionConsumed := False \<rparr>"

text \<open>
  The setters of the header. \<^verbatim>\<open>setView\<close> assigns to the view that the handler refers to;
  as the view is shared, it also stands for every change that another user of the view
  makes to it between two calls of the handler.
\<close>

definition setView :: "'v \<Rightarrow> 'v TouchHandler \<Rightarrow> 'v TouchHandler" where
  "setView v s = s\<lparr> m_view := v \<rparr>"

definition setMap :: "bool \<Rightarrow> 'v TouchHandler \<Rightarrow> 'v TouchHandler" where
  "setMap mp s = s\<lparr> m_map := mp \<rparr>"

definition setDpi :: "real \<Rightarrow> 'v TouchHandler \<Rightarrow> 'v TouchHandler" where
  "setDpi dpi s = s\<lparr> m_dpi := dpi \<rparr>"

definition setGesturesEnabled ::
  "bool \<Rightarrow> bool \<Rightarrow> bool \<Rightarrow> bool \<Rightarrow> bool \<Rightarrow> bool \<Rightarrow> 'v TouchHandler \<Rightarrow> 'v TouchHandler" where
  "setGesturesEnabled zoom' pan' doubleTap' doubleTapDrag' tilt' rotate' s =
     s\<lparr> m_zoomEnabled := zoom',
        m_panEnabled := pan',
        m_doubleTapEnabled := doubleTap',
        m_doubleTapDragEnabled := doubleTapDrag',
        m_tiltEnabled := tilt',
        m_rotateEnabled := rotate' \<rparr>"

definition setZoomEnabled :: "bool \<Rightarrow> 'v TouchHandler \<Rightarrow> 'v TouchHandler" where
  "setZoomEnabled enabled s = s\<lparr> m_zoomEnabled := enabled \<rparr>"

definition setPanEnabled :: "bool \<Rightarrow> 'v TouchHandler \<Rightarrow> 'v TouchHandler" where
  "setPanEnabled enabled s = s\<lparr> m_panEnabled := enabled \<rparr>"

definition setDoubleTapEnabled :: "bool \<Rightarrow> 'v TouchHandler \<Rightarrow> 'v TouchHandler" where
  "setDoubleTapEnabled enabled s = s\<lparr> m_doubleTapEnabled := enabled \<rparr>"

definition setTiltEnabled :: "bool \<Rightarrow> 'v TouchHandler \<Rightarrow> 'v TouchHandler" where
  "setTiltEnabled enabled s = s\<lparr> m_tiltEnabled := enabled \<rparr>"

definition setRotateEnabled :: "bool \<Rightarrow> 'v TouchHandler \<Rightarrow> 'v TouchHandler" where
  "setRotateEnabled enabled s = s\<lparr> m_rotateEnabled := enabled \<rparr>"

definition setDoubleTapDragEnabled :: "bool \<Rightarrow> 'v TouchHandler \<Rightarrow> 'v TouchHandler" where
  "setDoubleTapDragEnabled enabled s = s\<lparr> m_doubleTapDragEnabled := enabled \<rparr>"

definition setMapInteractionListener ::
  "(bool \<Rightarrow> bool \<Rightarrow> bool \<Rightarrow> bool \<Rightarrow> bool) option \<Rightarrow> 'v TouchHandler \<Rightarrow> 'v TouchHandler" where
  "setMapInteractionListener listener s = s\<lparr> m_mapInteractionListener := listener \<rparr>"

definition setMapClickListener ::
  "(ClickType \<Rightarrow> real \<Rightarrow> real \<Rightarrow> bool) option \<Rightarrow> 'v TouchHandler \<Rightarrow> 'v TouchHandler" where
  "setMapClickListener listener s = s\<lparr> m_mapClickListener := listener \<rparr>"

definition setPanningMode :: "PanningMode \<Rightarrow> 'v TouchHandler \<Rightarrow> 'v TouchHandler" where
  "setPanningMode mode s = s\<lparr> m_panningMode := mode \<rparr>"

section \<open>The transform layer\<close>

definition getTranslation ::
  "'v View \<Rightarrow> 'v TouchHandler \<Rightarrow> real \<Rightarrow> real \<Rightarrow> real \<Rightarrow> real \<Rightarrow> vec2" where
  "getTranslation V s startX startY endX endY =
     (let elev = view_screenPositionToLngLat V (m_view s) startX startY;
          start = view_screenToGroundPlane V (m_view s) startX startY elev;
          end = view_screenToGroundPlane V (m_view s) endX endY elev;
          dr = vec2_minus start end
      in if view_getPitch V (m_view s) > MAX_PITCH_FOR_PAN_LIMITING * pi / 180 then
           (let dpx = vec2_length (vec2 (startX - endX) (startY - endY))
                        / view_pixelsPerMeter V (m_view s);
                dd = vec2_length dr
            in if dd > dpx then vec2 (vec_x dr * dpx / dd) (vec_y dr * dpx / dd) else dr)
         else dr)"

definition singlePointerPan :: "'v View \<Rightarrow> ScreenPos \<Rightarrow> 'v TouchHandler \<Rightarrow> 'v TouchHandler" where
  "singlePointerPan V screenPos s =
     (let translation =
            getTranslation V s (pos_x (m_prevScreenPos1 s)) (pos_y (m_prevScreenPos1 s))
              (pos_x screenPos) (pos_y screenPos);
          s1 = call_translate V translation s
      in s1\<lparr> m_prevScreenPos1 := screenPos \<rparr>)"

definition startSinglePointerZoom ::
  "'v View \<Rightarrow> ScreenPos \<Rightarrow> 'v TouchHandler \<Rightarrow> 'v TouchHandler" where
  "startSinglePointerZoom V screenPos s =
     s\<lparr> m_singlePointerZoomStartZoom := view_getZoom V (m_view s),
        m_doubleTapStartPos := screenPos,
        m_prevScreenPos1 := screenPos,
        m_gestureMode := SINGLE_POINTER_ZOOM \<rparr>"

definition singlePointerZoom :: "'v View \<Rightarrow> ScreenPos \<Rightarrow> 'v TouchHandler \<Rightarrow> 'v TouchHandler" where
  "singlePointerZoom V screenPos s =
     (if \<not> m_doubleTapDragEnabled s then s
      else
        (let deltaY = pos_y screenPos - pos_y (m_prevScreenPos1 s);
             zoomDelta = deltaY * SINGLE_POINTER_ZOOM_SENSITIVITY;
             ax = pos_x (m_doubleTapStartPos s);
             ay = pos_y (m_doubleTapStartPos s);
             elev = view_screenPositionToLngLat V (m_view s) ax ay;
             start = view_screenToGroundPlane V (m_view s) ax ay elev;
             s1 = call_zoom V zoomDelta s;
             end = view_screenToGroundPlane V (m_view s1) ax ay elev;
             s2 = call_translate V (vec2_minus start end) s1
         in s2\<lparr> m_prevScreenPos1 := screenPos \<rparr>))"

subsection \<open>Clicks\<close>

definition handleSingleTap :: "ScreenPos \<Rightarrow> 'v TouchHandler \<Rightarrow> 'v TouchHandler" where
  "handleSingleTap screenPos s =
     (case m_mapClickListener s of
        None \<Rightarrow> s
      | Some l \<Rightarrow> s\<lparr> calls := calls s @ [OnMapClick SINGLE (pos_x screenPos) (pos_y screenPos)] \<rparr>)"

definition handleLongPress :: "ScreenPos \<Rightarrow> 'v TouchHandler \<Rightarrow> 'v TouchHandler" where
  "handleLongPress screenPos s =
     (case m_mapClickListener s of
        None \<Rightarrow> s
      | Some l \<Rightarrow> s\<lparr> calls := calls s @ [OnMapClick LONG (pos_x screenPos) (pos_y screenPos)] \<rparr>)"

definition handleDoubleTap :: "'v View \<Rightarrow> ScreenPos \<Rightarrow> 'v TouchHandler \<Rightarrow> 'v TouchHandler" where
  "handleDoubleTap V screenPos s =
     (let px = pos_x screenPos; py = pos_y screenPos;
          (consumed, s1) =
            (case m_mapClickListener s of
               None \<Rightarrow> (False, s)
             | Some l \<Rightarrow> (l DOUBLE px py, s\<lparr> calls := calls s @ [OnMapClick DOUBLE px py] \<rparr>))
      in if consumed then s1
         else if m_doubleTapEnabled s1 \<and> m_map s1
           then call_handleDoubleTapGesture V px py False s1
           else s1)"

definition handleDualTap ::
  "'v View \<Rightarrow> ScreenPos \<Rightarrow> ScreenPos \<Rightarrow> 'v TouchHandler \<Rightarrow> 'v TouchHandler" where
  "handleDualTap V screenPos1 screenPos2 s =
     (let px = (pos_x screenPos1 + pos_x screenPos2) / 2;
          py = (pos_y screenPos1 + pos_y screenPos2) / 2;
          (consumed, s1) =
            (case m_mapClickListener s of
               None \<Rightarrow> (False, s)
             | Some l \<Rightarrow> (l DUAL px py, s\<lparr> calls := calls s @ [OnMapClick DUAL px py] \<rparr>))
      in if consumed then s1
         else if m_doubleTapEnabled s1 \<and> m_map s1
           then call_handleDoubleTapGesture V px py True s1
           else s1)"

subsection \<open>Two pointers\<close>

definition startDualPointer :: "ScreenPos \<Rightarrow> ScreenPos \<Rightarrow> 'v TouchHandler \<Rightarrow> 'v TouchHandler" where
  "startDualPointer screenPos1 screenPos2 s =
     s\<lparr> m_prevScreenPos1 := screenPos1,
        m_prevScreenPos2 := screenPos2,
        m_swipe1 := vec2 0 0,
        m_swipe2 := vec2 0 0,
        m_gestureMode := DUAL_POINTER_GUESS \<rparr>"

text \<open>
  The heuristic branch of \<^verbatim>\<open>dualPointerGuess\<close>, entered when both families of
  dual-pointer gestures are enabled: the mode and the swipes after the test, before
  the previous positions are stored.
\<close>

definition dualPointerGuess_heuristic ::
  "ScreenPos \<Rightarrow> ScreenPos \<Rightarrow> 'v TouchHandler \<Rightarrow> 'v TouchHandler" where
  "dualPointerGuess_heuristic screenPos1 screenPos2 s =
     (let dpi = m_dpi s;
          deltaY = \<bar>pos_y screenPos1 - pos_y screenPos2\<bar> / dpi
      in if deltaY > GUESS_MAX_DELTA_Y_INCHES then s\<lparr> m_gestureMode := DUAL_POINTER_FREE \<rparr>
         else
           (let prevSwipe1Length = vec2_length (m_swipe1 s);
                prevSwipe2Length = vec2_length (m_swipe2 s);
                tempSwipe1 = vec2 (pos_x screenPos1 - pos_x (m_prevScreenPos1 s))
                                  (pos_y screenPos1 - pos_y (m_prevScreenPos1 s));
                s1 = s\<lparr> m_swipe1 := vec2_plus (m_swipe1 s) (vec2_scale (1 / dpi) tempSwipe1) \<rparr>;
                tempSwipe2 = vec2 (pos_x screenPos2 - pos_x (m_prevScreenPos2 s1))
                                  (pos_y screenPos2 - pos_y (m_prevScreenPos2 s1));
                s2 = s1\<lparr> m_swipe2 := vec2_plus (m_swipe2 s1) (vec2_scale (1 / dpi) tempSwipe2) \<rparr>;
                swipe1Length = vec2_length (m_swipe1 s2);
                swipe2Length = vec2_length (m_swipe2 s2)
            in if ((swipe1Length > GUESS_MIN_SWIPE_LENGTH_OPPOSITE_INCHES \<and> prevSwipe1Length > 0)
                   \<or> (swipe2Length > GUESS_MIN_SWIPE_LENGTH_OPPOSITE_INCHES \<and> prevSwipe2Length > 0))
                  \<and> vec_y (m_swipe1 s2) * vec_y (m_swipe2 s2) \<le> 0
               then
                 (if m_rotateEnabled s2 \<or> m_zoomEnabled s2 then
                    (if m_panningMode s2 = STICKY \<or> m_panningMode s2 = STICKY_FINAL
                     then s2\<lparr> m_gestureMode := DUAL_POINTER_ROTATE \<rparr>
                     else s2\<lparr> m_gestureMode := DUAL_POINTER_FREE \<rparr>)
                  else s2)
               else if (swipe1Length > GUESS_MIN_SWIPE_LENGTH_SAME_INCHES
                        \<or> swipe2Length > GUESS_MIN_SWIPE_LENGTH_SAME_INCHES)
                       \<and> vec_y (m_swipe1 s2) * vec_y (m_swipe2 s2) > 0
               then (if m_tiltEnabled s2 then s2\<lparr> m_gestureMode := DUAL_POINTER_TILT \<rparr> else s2)
               else s2))"

definition dualPointerGuess :: "ScreenPos \<Rightarrow> ScreenPos \<Rightarrow> 'v TouchHandler \<Rightarrow> 'v TouchHandler" where
  "dualPointerGuess screenPos1 screenPos2 s =
     (let (count0, target0) = (0 :: nat, DUAL_POINTER_FREE);
          (count1, target1) =
            (if m_tiltEnabled s then (count0 + 1, DUAL_POINTER_TILT) else (count0, target0));
          (enabledGestureCount, targetMode) =
            (if m_rotateEnabled s \<or> m_zoomEnabled s then (count1 + 1, DUAL_POINTER_FREE)
             else (count1, target1))
      in if enabledGestureCount = 1 then
           s\<lparr> m_gestureMode := targetMode,
              m_prevScreenPos1 := screenPos1,
              m_prevScreenPos2 := screenPos2 \<rparr>
         else if enabledGestureCount = 0 then
           s\<lparr> m_gestureMode := SINGLE_POINTER_CLICK_GUESS \<rparr>
         else
           (dualPointerGuess_heuristic screenPos1 screenPos2 s)
             \<lparr> m_prevScreenPos1 := screenPos1, m_prevScreenPos2 := screenPos2 \<rparr>)"

definition dualPointerPan ::
  "'v View \<Rightarrow> ScreenPos \<Rightarrow> ScreenPos \<Rightarrow> bool \<Rightarrow> bool \<Rightarrow> 'v TouchHandler \<Rightarrow> 'v TouchHandler" where
  "dualPointerPan V screenPos1 screenPos2 rotate' scale' s =
     (let prevCenter = ScreenPos ((pos_x (m_prevScreenPos1 s) + pos_x (m_prevScreenPos2 s)) * (1 / 2))
                                 ((pos_y (m_prevScreenPos1 s) + pos_y (m_prevScreenPos2 s)) * (1 / 2));
          currCenter = ScreenPos ((pos_x screenPos1 + pos_x screenPos2) * (1 / 2))
                                 ((pos_y screenPos1 + pos_y screenPos2) * (1 / 2));
          cx = pos_x currCenter;
          cy = pos_y currCenter;
          s1 = (if m_panEnabled s then
                  call_translate V
                    (getTranslation V s (pos_x prevCenter) (pos_y prevCenter) cx cy) s
                else s);
          s2 = (if scale' \<and> m_zoomEnabled s1 then
                  (let prevDist = pos_dist (m_prevScreenPos2 s1) (m_prevScreenPos1 s1);
                       currDist = pos_dist screenPos2 screenPos1
                   in if prevDist > 0 \<and> currDist > 0 then
                        (let scaleFactor = currDist / prevDist;
                             elev = view_screenPositionToLngLat V (m_view s1) cx cy;
                             start = view_screenToGroundPlane V (m_view s1) cx cy elev;
                             s1a = call_zoom V (log 2 scaleFactor) s1;
                             end = view_screenToGroundPlane V (m_view s1a) cx cy elev
                         in if m_panEnabled s1a
                            then call_translate V (vec2_minus start end) s1a
                            else s1a)
                      else s1)
                else s1);
          s3 = (if rotate' \<and> m_rotateEnabled s2 then
                  (let prevAngle = atan2 (pos_y (m_prevScreenPos2 s2) - pos_y (m_prevScreenPos1 s2))
                                         (pos_x (m_prevScreenPos2 s2) - pos_x (m_prevScreenPos1 s2));
                       currAngle = atan2 (pos_y screenPos2 - pos_y screenPos1)
                                         (pos_x screenPos2 - pos_x screenPos1);
                       rotation = currAngle - prevAngle;
                       elev = view_screenPositionToLngLat V (m_view s2) cx cy;
                       offset = view_screenToGroundPlane V (m_view s2) cx cy elev;
                       translation_rot = vec2_minus offset (vec2_rotate offset rotation);
                       s2a = (if m_panEnabled s2 then call_translate V translation_rot s2 else s2)
                   in call_yaw V rotation s2a)
                else s2)
      in s3\<lparr> m_prevScreenPos1 := screenPos1, m_prevScreenPos2 := screenPos2 \<rparr>)"

definition dualPointerTilt :: "'v View \<Rightarrow> ScreenPos \<Rightarrow> 'v TouchHandler \<Rightarrow> 'v TouchHandler" where
  "dualPointerTilt V screenPos1 s =
     (if \<not> m_tiltEnabled s then s\<lparr> m_prevScreenPos1 := screenPos1 \<rparr>
      else
        (let deltaY = pos_y screenPos1 - pos_y (m_prevScreenPos1 s);
             angle = - pi * deltaY / view_getHeight V (m_view s);
             maxpitch = min (75 * (pi / 180)) (view_getMaxPitch V (m_view s));
             pitch0 = clamp (view_getPitch V (m_view s)) 0 maxpitch;
             pitch1 = clamp (view_getPitch V (m_view s) + angle) 0 maxpitch;
             s1 = call_pitch V (pitch1 - pitch0) s
         in s1\<lparr> m_prevScreenPos1 := screenPos1 \<rparr>))"

definition calculateRotatingScalingFactor ::
  "'v TouchHandler \<Rightarrow> ScreenPos \<Rightarrow> ScreenPos \<Rightarrow> real" where
  "calculateRotatingScalingFactor s screenPos1 screenPos2 =
     (let prevDist = pos_dist (m_prevScreenPos2 s) (m_prevScreenPos1 s);
          currDist = pos_dist screenPos2 screenPos1
      in if prevDist < 1 \<or> currDist < 1 then 0
         else
           (let prevAngle = atan2 (pos_y (m_prevScreenPos2 s) - pos_y (m_prevScreenPos1 s))
                                  (pos_x (m_prevScreenPos2 s) - pos_x (m_prevScreenPos1 s));
                currAngle = atan2 (pos_y screenPos2 - pos_y screenPos1)
                                  (pos_x screenPos2 - pos_x screenPos1);
                angleChange = \<bar>currAngle - prevAngle\<bar>;
                scaleChange = \<bar>currDist - prevDist\<bar> / prevDist
            in if angleChange > scaleChange * 2 then angleChange
               else if scaleChange > angleChange * 2 then - scaleChange
               else 0))"

section \<open>The event dispatcher\<close>

text \<open>
  A call \<^verbatim>\<open>m_mapInteractionListener->onMapInteraction(..)\<close> under the null test: the
  answer is stored in \<^verbatim>\<open>m_interactionConsumed\<close>.
\<close>

definition call_onMapInteraction ::
  "bool \<Rightarrow> bool \<Rightarrow> bool \<Rightarrow> bool \<Rightarrow> 'v TouchHandler \<Rightarrow> 'v TouchHandler" where
  "call_onMapInteraction isPanning isZooming isRotating isTilting s =
     (case m_mapInteractionListener s of
        None \<Rightarrow> s
      | Some l \<Rightarrow>
          s\<lparr> m_interactionConsumed := l isPanning isZooming isRotating isTilting,
             calls := calls s @ [OnMapInteraction isPanning isZooming isRotating isTilting] \<rparr>)"

definition tapThreshold :: "'v TouchHandler \<Rightarrow> real" where
  "tapThreshold s = TAP_MOVEMENT_THRESHOLD_INCHES * m_dpi s"

text \<open>
  The cases of the \<^verbatim>\<open>switch (action)\<close> of \<^verbatim>\<open>onTouchEvent\<close>, one definition each. \<open>now\<close>
  is the reading of the clock at the entry of \<^verbatim>\<open>onTouchEvent\<close>, \<open>now2\<close> the second reading
  that some branches make.
\<close>

definition on_POINTER_1_DOWN :: "'v View \<Rightarrow> int \<Rightarrow> ScreenPos \<Rightarrow> 'v TouchHandler \<Rightarrow> 'v TouchHandler" where
  "on_POINTER_1_DOWN V now screenPos1 s =
     (let s1 = s\<lparr> m_pointer1DownTime := now,
                  m_noDualPointerYet := True,
                  m_interactionConsumed := False \<rparr>;
          s2 = setVelocity 0 (vec2 0 0) s1;
          s3 = s2\<lparr> m_prevScreenPos1 := screenPos1 \<rparr>;
          timeSinceFirstTap = duration_cast_ms (now - m_firstTapTime s3);
          distFromFirstTap = pos_dist screenPos1 (m_firstTapPos s3)
      in if timeSinceFirstTap < DOUBLE_TAP_TIMEOUT
            \<and> distFromFirstTap < tapThreshold s3
            \<and> m_gestureMode s3 = SINGLE_POINTER_CLICK_GUESS
         then
           (if \<not> m_doubleTapDragEnabled s3 then s3\<lparr> m_gestureMode := SINGLE_POINTER_CLICK_GUESS \<rparr>
            else
              (let s4 = call_onMapInteraction False True False False s3
               in if \<not> m_interactionConsumed s4 then startSinglePointerZoom V screenPos1 s4
                  else s4\<lparr> m_gestureMode := SINGLE_POINTER_CLICK_GUESS \<rparr>))
         else
           s3\<lparr> m_gestureMode := SINGLE_POINTER_CLICK_GUESS,
               m_firstTapTime := now,
               m_firstTapPos := screenPos1 \<rparr>)"

definition on_POINTER_2_DOWN :: "ScreenPos \<Rightarrow> ScreenPos \<Rightarrow> 'v TouchHandler \<Rightarrow> 'v TouchHandler" where
  "on_POINTER_2_DOWN screenPos1 screenPos2 s =
     (let s1 = s\<lparr> m_noDualPointerYet := False \<rparr>
      in case m_gestureMode s1 of
           SINGLE_POINTER_CLICK_GUESS \<Rightarrow> s1\<lparr> m_gestureMode := DUAL_POINTER_CLICK_GUESS \<rparr>
         | SINGLE_POINTER_PAN \<Rightarrow> startDualPointer screenPos1 screenPos2 s1
         | SINGLE_POINTER_ZOOM \<Rightarrow> startDualPointer screenPos1 screenPos2 s1
         | _ \<Rightarrow> s1)"

definition on_MOVE ::
  "'v View \<Rightarrow> int \<Rightarrow> ScreenPos \<Rightarrow> ScreenPos \<Rightarrow> 'v TouchHandler \<Rightarrow> 'v TouchHandler" where
  "on_MOVE V now2 screenPos1 screenPos2 s =
     (if m_interactionConsumed s then s
      else case m_gestureMode s of
        SINGLE_POINTER_CLICK_GUESS \<Rightarrow>
          (let dist = pos_dist screenPos1 (m_prevScreenPos1 s)
           in if dist > TAP_MOVEMENT_THRESHOLD_INCHES * m_dpi s then
                (if \<not> m_panEnabled s then s
                 else
                   (let s1 = call_onMapInteraction True False False False s
                    in if \<not> m_interactionConsumed s1
                       then s1\<lparr> m_gestureMode := SINGLE_POINTER_PAN,
                                m_prevScreenPos1 := screenPos1 \<rparr>
                       else s1))
              else s)
      | DUAL_POINTER_CLICK_GUESS \<Rightarrow>
          (let s1 = call_onMapInteraction True True True True s
           in if \<not> m_interactionConsumed s1
              then s1\<lparr> m_gestureMode := DUAL_POINTER_GUESS,
                       m_prevScreenPos1 := screenPos1,
                       m_prevScreenPos2 := screenPos2 \<rparr>
              else s1)
      | SINGLE_POINTER_PAN \<Rightarrow>
          (let deltaTime = now2 - m_dualPointerReleaseTime s
           in if deltaTime \<ge> DUAL_STOP_HOLD_DURATION * 1000000
              then singlePointerPan V screenPos1 s
              else s)
      | SINGLE_POINTER_ZOOM \<Rightarrow> singlePointerZoom V screenPos1 s
      | DUAL_POINTER_GUESS \<Rightarrow> dualPointerGuess screenPos1 screenPos2 s
      | DUAL_POINTER_TILT \<Rightarrow> dualPointerTilt V screenPos1 s
      | DUAL_POINTER_ROTATE \<Rightarrow>
          (let s1 = (if m_panningMode s = STICKY then
                       (let factor = calculateRotatingScalingFactor s screenPos1 screenPos2
                        in if factor > ROTATION_SCALING_FACTOR_THRESHOLD_STICKY
                             then s\<lparr> m_gestureMode := DUAL_POINTER_ROTATE \<rparr>
                           else if factor < - ROTATION_SCALING_FACTOR_THRESHOLD_STICKY
                             then s\<lparr> m_gestureMode := DUAL_POINTER_SCALE \<rparr>
                           else s)
                     else s)
           in dualPointerPan V screenPos1 screenPos2
                (m_gestureMode s1 = DUAL_POINTER_ROTATE)
                (m_gestureMode s1 = DUAL_POINTER_SCALE) s1)
      | DUAL_POINTER_SCALE \<Rightarrow>
          (let s1 = (if m_panningMode s = STICKY then
                       (let factor = calculateRotatingScalingFactor s screenPos1 screenPos2
                        in if factor > ROTATION_SCALING_FACTOR_THRESHOLD_STICKY
                             then s\<lparr> m_gestureMode := DUAL_POINTER_ROTATE \<rparr>
                           else if factor < - ROTATION_SCALING_FACTOR_THRESHOLD_STICKY
                             then s\<lparr> m_gestureMode := DUAL_POINTER_SCALE \<rparr>
                           else s)
                     else s)
           in dualPointerPan V screenPos1 screenPos2
                (m_gestureMode s1 = DUAL_POINTER_ROTATE)
                (m_gestureMode s1 = DUAL_POINTER_SCALE) s1)
      | DUAL_POINTER_FREE \<Rightarrow> dualPointerPan V screenPos1 screenPos2 True True s)"

definition on_CANCEL :: "'v TouchHandler \<Rightarrow> 'v TouchHandler" where
  "on_CANCEL s =
     setVelocity 0 (vec2 0 0)
       (s\<lparr> m_pointersDown := 0, m_gestureMode := SINGLE_POINTER_CLICK_GUESS \<rparr>)"

definition on_POINTER_1_UP ::
  "'v View \<Rightarrow> int \<Rightarrow> int \<Rightarrow> ScreenPos \<Rightarrow> ScreenPos \<Rightarrow> 'v TouchHandler \<Rightarrow> 'v TouchHandler" where
  "on_POINTER_1_UP V now now2 screenPos1 screenPos2 s =
     (let tapDuration = duration_cast_ms (now - m_pointer1DownTime s);
          moveDist = pos_dist screenPos1 (m_prevScreenPos1 s)
      in case m_gestureMode s of
        SINGLE_POINTER_CLICK_GUESS \<Rightarrow>
          (let s1 = (if moveDist < tapThreshold s then
                       (if tapDuration \<ge> LONG_PRESS_TIMEOUT then handleLongPress screenPos1 s
                        else if tapDuration < DOUBLE_TAP_TIMEOUT then handleSingleTap screenPos1 s
                        else s)
                     else s)
           in s1\<lparr> m_gestureMode := SINGLE_POINTER_CLICK_GUESS \<rparr>)
      | DUAL_POINTER_CLICK_GUESS \<Rightarrow> s\<lparr> m_gestureMode := SINGLE_POINTER_CLICK_GUESS \<rparr>
      | SINGLE_POINTER_PAN \<Rightarrow>
          (let s1 = s\<lparr> m_gestureMode := SINGLE_POINTER_CLICK_GUESS,
                       m_interactionConsumed := False \<rparr>
           in if m_noDualPointerYet s1 then setVelocity 0 (m_velocityPan s1) s1 else s1)
      | SINGLE_POINTER_ZOOM \<Rightarrow>
          (let s1 = (if tapDuration < DOUBLE_TAP_TIMEOUT \<and> moveDist < tapThreshold s
                     then handleDoubleTap V screenPos1 s else s);
               s2 = s1\<lparr> m_gestureMode := SINGLE_POINTER_CLICK_GUESS,
                        m_interactionConsumed := False \<rparr>
           in if m_noDualPointerYet s2 then setVelocity (m_velocityZoom s2) (vec2 0 0) s2 else s2)
      | _ \<Rightarrow>
          s\<lparr> m_dualPointerReleaseTime := now2,
             m_prevScreenPos1 := screenPos2,
             m_gestureMode := SINGLE_POINTER_PAN \<rparr>)"

definition on_POINTER_2_UP ::
  "'v View \<Rightarrow> int \<Rightarrow> int \<Rightarrow> ScreenPos \<Rightarrow> ScreenPos \<Rightarrow> 'v TouchHandler \<Rightarrow> 'v TouchHandler" where
  "on_POINTER_2_UP V now now2 screenPos1 screenPos2 s =
     (case m_gestureMode s of
        DUAL_POINTER_CLICK_GUESS \<Rightarrow>
          (let tapDuration = duration_cast_ms (now - m_pointer1DownTime s);
               s1 = (if tapDuration < DOUBLE_TAP_TIMEOUT
                     then handleDualTap V (m_prevScreenPos1 s) screenPos2 s else s)
           in s1\<lparr> m_gestureMode := SINGLE_POINTER_CLICK_GUESS \<rparr>)
      | SINGLE_POINTER_CLICK_GUESS \<Rightarrow> s
      | SINGLE_POINTER_PAN \<Rightarrow> s
      | SINGLE_POINTER_ZOOM \<Rightarrow> s
      | _ \<Rightarrow>
          s\<lparr> m_dualPointerReleaseTime := now2,
             m_prevScreenPos1 := screenPos1,
             m_gestureMode := SINGLE_POINTER_PAN \<rparr>)"

text \<open>The update of the pointer count that ends \<^verbatim>\<open>onTouchEvent\<close>.\<close>

definition update_pointer_count :: "TouchAction \<Rightarrow> 'v TouchHandler \<Rightarrow> 'v TouchHandler" where
  "update_pointer_count action s =
     (if action = POINTER_1_DOWN \<or> action = POINTER_2_DOWN
        then s\<lparr> m_pointersDown := min 2 (m_pointersDown s + 1) \<rparr>
      else if action = POINTER_1_UP \<or> action = POINTER_2_UP
        then s\<lparr> m_pointersDown := max 0 (m_pointersDown s - 1) \<rparr>
      else if action = CANCEL
        then s\<lparr> m_pointersDown := 0 \<rparr>
      else s)"

text \<open>
  \<^verbatim>\<open>onTouchEvent(action, screenPos1, screenPos2)\<close>: the state it leaves. The value it
  returns is \<^verbatim>\<open>m_interactionConsumed\<close> of that state.
\<close>

definition onTouchEvent ::
  "'v View \<Rightarrow> int \<Rightarrow> int \<Rightarrow> TouchAction \<Rightarrow> ScreenPos \<Rightarrow> ScreenPos
     \<Rightarrow> 'v TouchHandler \<Rightarrow> 'v TouchHandler" where
  "onTouchEvent V now now2 action screenPos1 screenPos2 s =
     update_pointer_count action
       (case action of
          POINTER_1_DOWN \<Rightarrow> on_POINTER_1_DOWN V now screenPos1 s
        | POINTER_2_DOWN \<Rightarrow> on_POINTER_2_DOWN screenPos1 screenPos2 s
        | MOVE \<Rightarrow> on_MOVE V now2 screenPos1 screenPos2 s
        | CANCEL \<Rightarrow> on_CANCEL s
        | POINTER_1_UP \<Rightarrow> on_POINTER_1_UP V now now2 screenPos1 screenPos2 s
        | POINTER_2_UP \<Rightarrow> on_POINTER_2_UP V now now2 screenPos1 screenPos2 s)"

definition onTouchEvent_result ::
  "'v View \<Rightarrow> int \<Rightarrow> int \<Rightarrow> TouchAction \<Rightarrow> ScreenPos \<Rightarrow> ScreenPos \<Rightarrow> 'v TouchHandler \<Rightarrow> bool" where
  "onTouchEvent_result V now now2 action screenPos1 screenPos2 s =
     m_interactionConsumed (onTouchEvent V now now2 action screenPos1 screenPos2 s)"

subsection \<open>Sequences of events\<close>

record TouchInput =
  in_action :: TouchAction
  in_pos1 :: ScreenPos
  in_pos2 :: ScreenPos
  in_now :: int
  in_now2 :: int

definition handle :: "'v View \<Rightarrow> TouchInput \<Rightarrow> 'v TouchHandler \<Rightarrow> 'v TouchHandler" where
  "handle V e s = onTouchEvent V (in_now e) (in_now2 e) (in_action e) (in_pos1 e) (in_pos2 e) s"

fun run :: "'v View \<Rightarrow> 'v TouchHandler \<Rightarrow> TouchInput list \<Rightarrow> 'v TouchHandler" where
  "run V s [] = s"
| "run V s (e # es) = run V (handle V e s) es"

section \<open>Reference notions and a test view\<close>

text \<open>
  The number of \<^verbatim>\<open>Down\<close> actions minus the number of \<^verbatim>\<open>Up\<close> actions since the last
  \<^verbatim>\<open>Cancel\<close>, and the saturating step that the handler applies to its counter.
\<close>

fun is_down :: "TouchAction \<Rightarrow> bool" where
  "is_down a = (a = POINTER_1_DOWN \<or> a = POINTER_2_DOWN)"

fun is_up :: "TouchAction \<Rightarrow> bool" where
  "is_up a = (a = POINTER_1_UP \<or> a = POINTER_2_UP)"

definition since_last_cancel :: "TouchAction list \<Rightarrow> TouchAction list" where
  "since_last_cancel as = rev (takeWhile (\<lambda>a. a \<noteq> CANCEL) (rev as))"

definition downs_minus_ups :: "TouchAction list \<Rightarrow> int" where
  "downs_minus_ups as =
     int (length (filter is_down (since_last_cancel as)))
       - int (length (filter is_up (since_last_cancel as)))"

definition count_step :: "TouchAction \<Rightarrow> int \<Rightarrow> int" where
  "count_step a n =
     (if is_down a then min 2 (n + 1) else if is_up a then max 0 (n - 1)
      else if a = CANCEL then 0 else n)"

text \<open>
  A concrete view for the examples: a flat map seen from above. The view has a position
  on the ground plane, \<open>2 powr zoom\<close> pixels per metre, and \<open>screenToGroundPlane\<close> gives
  the ground coordinates of a screen position relative to the position of the view, the
  screen being 800 by 600 pixels.
\<close>

record SimpleView =
  sv_position :: vec2
  sv_zoom :: real
  sv_yaw :: real
  sv_pitch :: real

definition simpleView :: "SimpleView View" where
  "simpleView =
     \<lparr> view_pixelsPerMeter = (\<lambda>v. 2 powr sv_zoom v),
       view_pixelScale = (\<lambda>v. 1),
       view_getZoom = sv_zoom,
       view_getPitch = sv_pitch,
       view_getMaxPitch = (\<lambda>v. pi / 2),
       view_getHeight = (\<lambda>v. 600),
       view_screenPositionToLngLat = (\<lambda>v px py. 0),
       view_screenToGroundPlane =
         (\<lambda>v px py elev. vec2 ((px - 400) / 2 powr sv_zoom v) ((py - 300) / 2 powr sv_zoom v)),
       view_translate = (\<lambda>d v. v\<lparr> sv_position := vec2_plus (sv_position v) d \<rparr>),
       view_zoom = (\<lambda>z v. v\<lparr> sv_zoom := sv_zoom v + z \<rparr>),
       view_yaw = (\<lambda>a v. v\<lparr> sv_yaw := sv_yaw v + a \<rparr>),
       view_pitch = (\<lambda>a v. v\<lparr> sv_pitch := sv_pitch v + a \<rparr>),
       map_handleDoubleTapGesture = (\<lambda>px py out v. v) \<rparr>"

definition sv0 :: SimpleView where
  "sv0 = \<lparr> sv_position = vec2 0 0, sv_zoom = 0, sv_yaw = 0, sv_pitch = 0 \<rparr>"

definition ev :: "TouchAction \<Rightarrow> real \<Rightarrow> real \<Rightarrow> real \<Rightarrow> real \<Rightarrow> int \<Rightarrow> TouchInput" where
  "ev a x1 y1 x2 y2 ms =
     \<lparr> in_action = a, in_pos1 = ScreenPos x1 y1, in_pos2 = ScreenPos x2 y2,
       in_now = ms * 1000000, in_now2 = ms * 1000000 \<rparr>"

subsection \<open>Notions for the kinetic update\<close>


subsection \<open>States for the examples of the dispatcher\<close>

text \<open>
  States for the examples of the dispatcher. A handler whose interaction listener
  consumes every interaction, after a first pointer went down and moved by 100 pixels;
  a handler with a click listener after a first pointer went down; a handler after a
  first pointer went down and moved by 50 pixels, in the mode \<^verbatim>\<open>SINGLE_POINTER_PAN\<close>, and
  the same handler after that pointer went up.
\<close>

definition consume_all :: "bool \<Rightarrow> bool \<Rightarrow> bool \<Rightarrow> bool \<Rightarrow> bool" where
  "consume_all isPanning isZooming isRotating isTilting = True"

definition ignore_click :: "ClickType \<Rightarrow> real \<Rightarrow> real \<Rightarrow> bool" where
  "ignore_click t px py = False"

definition consumed_state :: "SimpleView TouchHandler" where
  "consumed_state =
     run simpleView (setMapInteractionListener (Some consume_all) (TouchHandler_new sv0 True 0))
       [ev POINTER_1_DOWN 100 100 (- 1) (- 1) 1000, ev MOVE 200 100 (- 1) (- 1) 1050]"

definition pressed_state :: "SimpleView TouchHandler" where
  "pressed_state =
     run simpleView (setMapClickListener (Some ignore_click) (TouchHandler_new sv0 True 0))
       [ev POINTER_1_DOWN 200 200 (- 1) (- 1) 1000]"



subsection \<open>States for the examples with two pointers and the double-tap drag\<close>

text \<open>
  States for the examples with two pointers and with the double-tap drag. The first
  pointer goes down and pans, then the second goes down: the mode is
  \<^verbatim>\<open>DUAL_POINTER_GUESS\<close> and both swipes are zero. In \<open>swiping_state\<close> the two pointers
  have then moved by 4 pixels, in opposite vertical directions. In
  \<open>double_tap_drag_state\<close> a tap is followed within 300 ms by a second down at the same
  place: the mode is \<^verbatim>\<open>SINGLE_POINTER_ZOOM\<close>.
\<close>

definition dual_guess_state :: "SimpleView TouchHandler" where
  "dual_guess_state =
     run simpleView (TouchHandler_new sv0 True 0)
       [ev POINTER_1_DOWN 300 300 (- 1) (- 1) 1000,
        ev MOVE 350 300 (- 1) (- 1) 1100,
        ev POINTER_2_DOWN 350 300 500 300 1200]"

definition swiping_state :: "SimpleView TouchHandler" where
  "swiping_state = run simpleView dual_guess_state [ev MOVE 350 304 500 296 1300]"

definition double_tap_drag_state :: "SimpleView TouchHandler" where
  "double_tap_drag_state =
     run simpleView (TouchHandler_new sv0 True 0)
       [ev POINTER_1_DOWN 300 300 (- 1) (- 1) 1000,
        ev POINTER_1_UP 300 300 (- 1) (- 1) 1100,
        ev POINTER_1_DOWN 300 300 (- 1) (- 1) 1200]"

text \<open>
  The ground-plane point under a screen position of the test view: the position of the
  view plus the relative coordinates that \<open>screenToGroundPlane\<close> gives.
\<close>

definition simpleView_ground :: "SimpleView \<Rightarrow> real \<Rightarrow> real \<Rightarrow> real \<Rightarrow> vec2" where
  "simpleView_ground v px py elev =
     vec2_plus (sv_position v) (view_screenToGroundPlane simpleView v px py elev)"

text \<open>
  A \<^verbatim>\<open>MOVE\<close> in \<^verbatim>\<open>DUAL_POINTER_GUESS\<close> with both families of gestures enabled and the
  pointers at most one inch apart vertically: the swipes that it accumulates and the
  mode that it selects.
\<close>

definition swipe_after :: "real \<Rightarrow> vec2 \<Rightarrow> ScreenPos \<Rightarrow> ScreenPos \<Rightarrow> vec2" where
  "swipe_after dpi swipe prev pos =
     vec2_plus swipe (vec2_scale (1 / dpi) (vec2 (pos_x pos - pos_x prev) (pos_y pos - pos_y prev)))"

subsection \<open>Invariants of the runs\<close>

text \<open>
  A handler at rest has both velocities at zero. A consumed interaction in one of the two
  click-guess modes is the situation in which the listener leaves the handler when it
  consumes an interaction.
\<close>

definition at_rest :: "'v TouchHandler \<Rightarrow> bool" where
  "at_rest s = (m_velocityPan s = vec2 0 0 \<and> m_velocityZoom s = 0)"


definition consumed_guess :: "'v TouchHandler \<Rightarrow> bool" where
  "consumed_guess s =
     (m_interactionConsumed s
      \<and> (m_gestureMode s = SINGLE_POINTER_CLICK_GUESS
         \<or> m_gestureMode s = DUAL_POINTER_CLICK_GUESS))"

section \<open>The pointer count\<close>

lemma pd_call [simp]:
  "m_pointersDown (call_translate V d s) = m_pointersDown s"
  "m_pointersDown (call_zoom V z s) = m_pointersDown s"
  "m_pointersDown (call_yaw V a s) = m_pointersDown s"
  "m_pointersDown (call_pitch V a s) = m_pointersDown s"
  "m_pointersDown (call_handleDoubleTapGesture V px py out s) = m_pointersDown s"
  "m_pointersDown (setVelocity z t s) = m_pointersDown s"
  "m_pointersDown (call_onMapInteraction b1 b2 b3 b4 s) = m_pointersDown s"
  by (simp_all add: call_translate_def call_zoom_def call_yaw_def call_pitch_def
      call_handleDoubleTapGesture_def setVelocity_def call_onMapInteraction_def split: option.splits)

lemma pd_transform [simp]:
  "m_pointersDown (singlePointerPan V p s) = m_pointersDown s"
  "m_pointersDown (startSinglePointerZoom V p s) = m_pointersDown s"
  "m_pointersDown (singlePointerZoom V p s) = m_pointersDown s"
  "m_pointersDown (handleSingleTap p s) = m_pointersDown s"
  "m_pointersDown (handleLongPress p s) = m_pointersDown s"
  "m_pointersDown (handleDoubleTap V p s) = m_pointersDown s"
  "m_pointersDown (handleDualTap V p q s) = m_pointersDown s"
  "m_pointersDown (startDualPointer p q s) = m_pointersDown s"
  "m_pointersDown (dualPointerTilt V p s) = m_pointersDown s"
  by (simp_all add: singlePointerPan_def startSinglePointerZoom_def singlePointerZoom_def
      handleSingleTap_def handleLongPress_def handleDoubleTap_def handleDualTap_def
      startDualPointer_def dualPointerTilt_def Let_def split: option.splits prod.splits)

lemma pd_guess [simp]:
  "m_pointersDown (dualPointerGuess_heuristic p q s) = m_pointersDown s"
  "m_pointersDown (dualPointerGuess p q s) = m_pointersDown s"
  by (simp_all add: dualPointerGuess_heuristic_def dualPointerGuess_def Let_def)

lemma pd_pan [simp]:
  "m_pointersDown (dualPointerPan V p q r sc s) = m_pointersDown s"
  by (simp add: dualPointerPan_def Let_def)

lemma pd_on [simp]:
  "m_pointersDown (on_POINTER_1_DOWN V now p s) = m_pointersDown s"
  "m_pointersDown (on_POINTER_2_DOWN p q s) = m_pointersDown s"
  "m_pointersDown (on_MOVE V now2 p q s) = m_pointersDown s"
  "m_pointersDown (on_POINTER_1_UP V now now2 p q s) = m_pointersDown s"
  "m_pointersDown (on_POINTER_2_UP V now now2 p q s) = m_pointersDown s"
  by (simp_all add: on_POINTER_1_DOWN_def on_POINTER_2_DOWN_def on_MOVE_def
      on_POINTER_1_UP_def on_POINTER_2_UP_def Let_def split: GestureMode.splits)

lemma pointersDown_onTouchEvent:
  "m_pointersDown (onTouchEvent V now now2 a p q s) = count_step a (m_pointersDown s)"
  by (cases a) (simp_all add: onTouchEvent_def update_pointer_count_def count_step_def on_CANCEL_def)

lemma pointersDown_handle:
  "m_pointersDown (handle V e s) = count_step (in_action e) (m_pointersDown s)"
  by (simp add: handle_def pointersDown_onTouchEvent)

lemma run_snoc: "run V s (es @ [e]) = handle V e (run V s es)"
  by (induction es arbitrary: s) simp_all

lemma count_step_range: "n \<in> {0, 1, 2} \<Longrightarrow> count_step a n \<in> {0, 1, 2}"
  by (auto simp: count_step_def min_def max_def)

lemma pointersDown_run_range:
  "m_pointersDown s \<in> {0, 1, 2} \<Longrightarrow> m_pointersDown (run V s es) \<in> {0, 1, 2}"
proof (induction es rule: rev_induct)
  case Nil
  then show ?case by simp
next
  case (snoc e es)
  then show ?case
    using count_step_range [of "m_pointersDown (run V s es)" "in_action e"]
    by (simp only: run_snoc pointersDown_handle)
qed

lemma since_last_cancel_snoc:
  "since_last_cancel (as @ [a]) = (if a = CANCEL then [] else since_last_cancel as @ [a])"
  by (simp add: since_last_cancel_def)

lemma downs_minus_ups_snoc:
  "downs_minus_ups (as @ [a]) =
     (if a = CANCEL then 0
      else downs_minus_ups as + (if is_down a then 1 else 0) - (if is_up a then 1 else 0))"
  by (simp add: downs_minus_ups_def since_last_cancel_snoc)

lemma downs_minus_ups_Nil: "downs_minus_ups [] = 0"
  by (simp add: downs_minus_ups_def since_last_cancel_def)

lemma count_step_exact:
  assumes "0 \<le> n" "n \<le> 2" "0 \<le> downs_minus_ups (as @ [a])" "downs_minus_ups (as @ [a]) \<le> 2"
    and "n = downs_minus_ups as"
  shows "count_step a n = downs_minus_ups (as @ [a])"
  using assms by (cases a) (simp_all add: count_step_def downs_minus_ups_snoc)

lemma pointersDown_run_exact:
  assumes "m_pointersDown s = 0"
  shows "(\<forall>k\<le>length es. 0 \<le> downs_minus_ups (map in_action (take k es))
            \<and> downs_minus_ups (map in_action (take k es)) \<le> 2)
         \<Longrightarrow> m_pointersDown (run V s es) = downs_minus_ups (map in_action es)"
proof (induction es rule: rev_induct)
  case Nil
  then show ?case using assms by (simp add: downs_minus_ups_Nil)
next
  case (snoc e es)
  have pre: "\<forall>k\<le>length es. 0 \<le> downs_minus_ups (map in_action (take k es))
            \<and> downs_minus_ups (map in_action (take k es)) \<le> 2"
  proof (intro allI impI)
    fix k assume k: "k \<le> length es"
    then have "take k (es @ [e]) = take k es" by simp
    moreover have "k \<le> length (es @ [e])" using k by simp
    ultimately show "0 \<le> downs_minus_ups (map in_action (take k es))
            \<and> downs_minus_ups (map in_action (take k es)) \<le> 2"
      using snoc.prems by metis
  qed
  then have ih: "m_pointersDown (run V s es) = downs_minus_ups (map in_action es)"
    by (rule snoc.IH)
  have here: "0 \<le> downs_minus_ups (map in_action es) \<and> downs_minus_ups (map in_action es) \<le> 2"
    using pre [rule_format, of "length es"] by simp
  have there: "0 \<le> downs_minus_ups (map in_action es @ [in_action e])
      \<and> downs_minus_ups (map in_action es @ [in_action e]) \<le> 2"
    using snoc.prems [rule_format, of "length (es @ [e])"] by simp
  show ?case
    using count_step_exact [of "m_pointersDown (run V s es)" "map in_action es" "in_action e"]
      ih here there
    by (simp add: run_snoc pointersDown_handle)
qed

text \<open>
  Claim C1, as the code has it. After every sequence of actions on a new handler the
  counter \<^verbatim>\<open>m_pointersDown\<close> is 0, 1 or 2. It is the number of downs minus the number of
  ups since the last \<^verbatim>\<open>Cancel\<close> whenever that difference stayed between 0 and 2 after
  every action of the sequence; otherwise the counter has saturated
  (\<^verbatim>\<open>std::min(2, ..)\<close>, \<^verbatim>\<open>std::max(0, ..)\<close>) and the two may differ.
\<close>

theorem C1_pointer_count:
  "m_pointersDown (run V (TouchHandler_new v mp t0) es) \<in> {0, 1, 2}
   \<and> ((\<forall>k\<le>length es. 0 \<le> downs_minus_ups (map in_action (take k es))
            \<and> downs_minus_ups (map in_action (take k es)) \<le> 2)
        \<longrightarrow> m_pointersDown (run V (TouchHandler_new v mp t0) es)
            = downs_minus_ups (map in_action es))"
proof -
  have z: "m_pointersDown (TouchHandler_new v mp t0) = 0"
    by (simp add: TouchHandler_new_def)
  show ?thesis
    using pointersDown_run_range [of "TouchHandler_new v mp t0" V es]
      pointersDown_run_exact [OF z, of es V] z
    by simp
qed

text \<open>
  An up with no pointer down leaves the counter at 0, where the difference is \<open>-1\<close>.
\<close>

theorem C1_counterexample:
  "m_pointersDown (run simpleView (TouchHandler_new sv0 True 0) [ev POINTER_1_UP 100 100 (-1) (-1) 200]) = 0
   \<and> downs_minus_ups (map in_action [ev POINTER_1_UP 100 100 (-1) (-1) 200]) = - 1"
  by (simp add: pointersDown_handle count_step_def TouchHandler_new_def ev_def
      downs_minus_ups_def since_last_cancel_def)

theorem C1_witness:
  "m_pointersDown (run simpleView (TouchHandler_new sv0 True 0)
      [ev POINTER_1_DOWN 100 100 (-1) (-1) 1000, ev POINTER_2_DOWN 100 100 200 100 1100]) = 2
   \<and> downs_minus_ups [POINTER_1_DOWN, POINTER_2_DOWN] = 2"
proof -
  let ?es = "[ev POINTER_1_DOWN 100 100 (-1) (-1) 1000, ev POINTER_2_DOWN 100 100 200 100 1100]"
  have pre: "\<forall>k\<le>length ?es. 0 \<le> downs_minus_ups (map in_action (take k ?es))
            \<and> downs_minus_ups (map in_action (take k ?es)) \<le> 2"
    by (simp add: le_Suc_eq ev_def downs_minus_ups_def since_last_cancel_def all_conj_distrib)
  have "downs_minus_ups [POINTER_1_DOWN, POINTER_2_DOWN] = 2"
    by (simp add: downs_minus_ups_def since_last_cancel_def)
  then show ?thesis
    using C1_pointer_count [of simpleView sv0 True 0 ?es] pre
    by (simp add: ev_def)
qed

section \<open>The kinetic update\<close>


lemma vec2_minus_scale: "vec2_minus a (vec2_scale c a) = vec2_scale (1 - c) a"
  by (simp add: vec2_minus_def vec2_scale_def algebra_simps)







lemma simpleView_fields:
  "view_pixelsPerMeter simpleView v = 2 powr sv_zoom v"
  "view_pixelScale simpleView v = 1"
  "view_zoom simpleView z v = v\<lparr> sv_zoom := sv_zoom v + z \<rparr>"
  "view_translate simpleView d v = v\<lparr> sv_position := vec2_plus (sv_position v) d \<rparr>"
  by (simp_all add: simpleView_def)

text \<open>
  \<^verbatim>\<open>update\<close> contains no test of the sign of \<open>dt\<close>. This is what a call with \<open>dt < 0\<close>
  does in a state of the handler's type: nothing when the handler is not flinging, and
  otherwise \<^verbatim>\<open>std::min\<close> selects \<open>dt * DAMPING\<close>.
\<close>

lemma update_negative_dt:
  assumes "dt < 0"
  shows "update V dt s =
     (if isFlinging V s then
        (True,
         s\<lparr> m_velocityPan := vec2_scale (1 - dt * DAMPING_PAN) (m_velocityPan s),
            m_velocityZoom := (1 - dt * DAMPING_ZOOM) * m_velocityZoom s,
            m_view :=
              view_zoom V ((1 - dt * DAMPING_ZOOM) * m_velocityZoom s * dt)
                (view_translate V
                   (vec2_scale dt (vec2_scale (1 - dt * DAMPING_PAN) (m_velocityPan s)))
                   (m_view s)),
            calls := calls s @
              [Translate (vec2_scale dt (vec2_scale (1 - dt * DAMPING_PAN) (m_velocityPan s))),
               Zoom ((1 - dt * DAMPING_ZOOM) * m_velocityZoom s * dt)] \<rparr>)
      else (False, s))"
proof -
  have "min (dt * DAMPING_PAN) 1 = dt * DAMPING_PAN"
    using assms by (simp add: DAMPING_PAN_def min_def)
  moreover have "min (dt * DAMPING_ZOOM) 1 = dt * DAMPING_ZOOM"
    using assms by (simp add: DAMPING_ZOOM_def min_def)
  ultimately show ?thesis
    by (simp add: update_def Let_def call_translate_def call_zoom_def vec2_minus_scale
        vec2_scale_def [symmetric] left_diff_distrib)
qed

section \<open>Evaluating the dispatcher on the examples\<close>

lemma pos_dist_same_y [simp]: "pos_dist (ScreenPos a c) (ScreenPos b c) = \<bar>a - b\<bar>"
  by (simp add: pos_dist_def)

lemmas dispatch_defs =
  handle_def ev_def onTouchEvent_def update_pointer_count_def
  on_POINTER_1_DOWN_def on_POINTER_2_DOWN_def on_MOVE_def on_CANCEL_def
  on_POINTER_1_UP_def on_POINTER_2_UP_def
  setVelocity_def call_onMapInteraction_def tapThreshold_def duration_cast_ms_def
  startSinglePointerZoom_def startDualPointer_def
  handleSingleTap_def handleLongPress_def
  TouchHandler_new_def setMapInteractionListener_def setMapClickListener_def
  setDoubleTapDragEnabled_def setPanningMode_def
  DOUBLE_TAP_TIMEOUT_def LONG_PRESS_TIMEOUT_def DUAL_STOP_HOLD_DURATION_def
  TAP_MOVEMENT_THRESHOLD_INCHES_def DEFAULT_DPI_def Let_def

lemma consumed_state_eval:
  "m_interactionConsumed consumed_state"
  "m_gestureMode consumed_state = SINGLE_POINTER_CLICK_GUESS"
  "calls consumed_state = [OnMapInteraction True False False False]"
  "m_view consumed_state = sv0"
  by (simp_all add: consumed_state_def dispatch_defs consume_all_def)

lemma pressed_state_eval:
  "m_gestureMode pressed_state = SINGLE_POINTER_CLICK_GUESS"
  "m_prevScreenPos1 pressed_state = ScreenPos 200 200"
  "m_pointer1DownTime pressed_state = 1000000000"
  "m_dpi pressed_state = 160"
  "calls pressed_state = []"
  "m_mapClickListener pressed_state = Some ignore_click"
  "m_pointersDown pressed_state = 1"
  by (simp_all add: pressed_state_def dispatch_defs)

section \<open>Cancel\<close>

lemma cancel_action_fields:
  "m_velocityPan (onTouchEvent V now now2 CANCEL p q s) = vec2 0 0"
  "m_velocityZoom (onTouchEvent V now now2 CANCEL p q s) = 0"
  "m_gestureMode (onTouchEvent V now now2 CANCEL p q s) = SINGLE_POINTER_CLICK_GUESS"
  "m_pointersDown (onTouchEvent V now now2 CANCEL p q s) = 0"
  "m_interactionConsumed (onTouchEvent V now now2 CANCEL p q s) = m_interactionConsumed s"
  by (simp_all add: onTouchEvent_def on_CANCEL_def update_pointer_count_def setVelocity_def)

text \<open>
  Claim C6 at a state that the handler reaches from its construction: the listener
  consumed the pan, so \<^verbatim>\<open>m_interactionConsumed\<close> is set. The \<^verbatim>\<open>CANCEL\<close> action leaves it
  set, where the method \<^verbatim>\<open>cancel()\<close> clears it; the other three effects of the claim
  hold.
\<close>

theorem C6_cancel_action_keeps_interactionConsumed:
  "m_interactionConsumed consumed_state
   \<and> m_interactionConsumed (handle simpleView (ev CANCEL (- 1) (- 1) (- 1) (- 1) 1100) consumed_state)
   \<and> \<not> m_interactionConsumed (cancel consumed_state)
   \<and> m_velocityPan (handle simpleView (ev CANCEL (- 1) (- 1) (- 1) (- 1) 1100) consumed_state) = vec2 0 0
   \<and> m_velocityZoom (handle simpleView (ev CANCEL (- 1) (- 1) (- 1) (- 1) 1100) consumed_state) = 0
   \<and> m_gestureMode (handle simpleView (ev CANCEL (- 1) (- 1) (- 1) (- 1) 1100) consumed_state)
       = SINGLE_POINTER_CLICK_GUESS
   \<and> m_pointersDown (handle simpleView (ev CANCEL (- 1) (- 1) (- 1) (- 1) 1100) consumed_state) = 0
   \<and> onTouchEvent_result simpleView 1100000000 1100000000 CANCEL
        (ScreenPos (- 1) (- 1)) (ScreenPos (- 1) (- 1)) consumed_state"
  by (simp add: handle_def ev_def cancel_action_fields consumed_state_eval cancel_def
      onTouchEvent_result_def)

section \<open>Clicks\<close>

text \<open>
  Claim C10. A \<^verbatim>\<open>POINTER_1_UP\<close> in the mode \<^verbatim>\<open>SINGLE_POINTER_CLICK_GUESS\<close>, closer to the
  previous position than the tap threshold and with a tap duration of at least 300 ms
  and less than 500 ms, makes no call at all (no click callback, no default behaviour),
  leaves the view as it is, and the mode stays \<^verbatim>\<open>SINGLE_POINTER_CLICK_GUESS\<close>.
\<close>

theorem C10_no_click_between_timeouts:
  assumes "m_gestureMode s = SINGLE_POINTER_CLICK_GUESS"
    and "pos_dist screenPos1 (m_prevScreenPos1 s) < tapThreshold s"
    and "DOUBLE_TAP_TIMEOUT \<le> duration_cast_ms (now - m_pointer1DownTime s)"
    and "duration_cast_ms (now - m_pointer1DownTime s) < LONG_PRESS_TIMEOUT"
  shows "calls (onTouchEvent V now now2 POINTER_1_UP screenPos1 screenPos2 s) = calls s
       \<and> m_view (onTouchEvent V now now2 POINTER_1_UP screenPos1 screenPos2 s) = m_view s
       \<and> m_gestureMode (onTouchEvent V now now2 POINTER_1_UP screenPos1 screenPos2 s)
           = SINGLE_POINTER_CLICK_GUESS"
  using assms
  by (simp add: onTouchEvent_def on_POINTER_1_UP_def update_pointer_count_def Let_def)

theorem C10_witness:
  "m_gestureMode pressed_state = SINGLE_POINTER_CLICK_GUESS
   \<and> pos_dist (ScreenPos 201 200) (m_prevScreenPos1 pressed_state) = 1
   \<and> tapThreshold pressed_state = 16
   \<and> duration_cast_ms (1400000000 - m_pointer1DownTime pressed_state) = 400
   \<and> m_mapClickListener pressed_state = Some ignore_click
   \<and> calls (onTouchEvent simpleView 1400000000 1400000000 POINTER_1_UP
        (ScreenPos 201 200) (ScreenPos (- 1) (- 1)) pressed_state) = []
   \<and> m_gestureMode (onTouchEvent simpleView 1400000000 1400000000 POINTER_1_UP
        (ScreenPos 201 200) (ScreenPos (- 1) (- 1)) pressed_state) = SINGLE_POINTER_CLICK_GUESS"
proof -
  have a: "pos_dist (ScreenPos 201 200) (m_prevScreenPos1 pressed_state) = 1"
    by (simp add: pressed_state_eval)
  have b: "tapThreshold pressed_state = 16"
    by (simp add: tapThreshold_def pressed_state_eval TAP_MOVEMENT_THRESHOLD_INCHES_def)
  have c: "duration_cast_ms (1400000000 - m_pointer1DownTime pressed_state) = 400"
    by (simp add: pressed_state_eval duration_cast_ms_def)
  show ?thesis
    using C10_no_click_between_timeouts [of pressed_state "ScreenPos 201 200" 1400000000
        simpleView 1400000000 "ScreenPos (- 1) (- 1)"] a b c
    by (simp add: pressed_state_eval DOUBLE_TAP_TIMEOUT_def LONG_PRESS_TIMEOUT_def)
qed

section \<open>Consumed interactions\<close>

lemma move_consumed: "m_interactionConsumed s \<Longrightarrow> onTouchEvent V now now2 MOVE p q s = s"
  by (simp add: onTouchEvent_def on_MOVE_def update_pointer_count_def)

lemma run_take_Suc: "k < length es \<Longrightarrow> run V s (take (Suc k) es) = handle V (es ! k) (run V s (take k es))"
  by (simp add: take_Suc_conv_app_nth run_snoc)

text \<open>
  Claim C5. In every sequence of actions, a \<^verbatim>\<open>MOVE\<close> that is processed while
  \<^verbatim>\<open>m_interactionConsumed\<close> is set makes no call (no translate, zoom, yaw or pitch among
  them), leaves the view as it is, and leaves \<^verbatim>\<open>m_interactionConsumed\<close> set.
\<close>

theorem C5_consumed_move_is_silent:
  assumes "k < length es"
    and "in_action (es ! k) = MOVE"
    and "m_interactionConsumed (run V s (take k es))"
  shows "calls (run V s (take (Suc k) es)) = calls (run V s (take k es))
       \<and> m_view (run V s (take (Suc k) es)) = m_view (run V s (take k es))
       \<and> m_interactionConsumed (run V s (take (Suc k) es))"
  using assms by (simp add: run_take_Suc handle_def move_consumed)

theorem C5_witness:
  "in_action (ev MOVE 300 100 (- 1) (- 1) 1100) = MOVE
   \<and> m_interactionConsumed consumed_state
   \<and> calls consumed_state = [OnMapInteraction True False False False]
   \<and> calls (run simpleView
         (setMapInteractionListener (Some consume_all) (TouchHandler_new sv0 True 0))
         [ev POINTER_1_DOWN 100 100 (- 1) (- 1) 1000, ev MOVE 200 100 (- 1) (- 1) 1050,
          ev MOVE 300 100 (- 1) (- 1) 1100])
       = [OnMapInteraction True False False False]"
proof -
  let ?s = "setMapInteractionListener (Some consume_all) (TouchHandler_new sv0 True 0)"
  let ?es = "[ev POINTER_1_DOWN 100 100 (- 1) (- 1) 1000, ev MOVE 200 100 (- 1) (- 1) 1050,
          ev MOVE 300 100 (- 1) (- 1) 1100]"
  have t: "run simpleView ?s (take (Suc (Suc 0)) ?es) = consumed_state"
    by (simp add: consumed_state_def)
  have m: "in_action (?es ! Suc (Suc 0)) = MOVE"
    by (simp add: ev_def)
  have c: "m_interactionConsumed (run simpleView ?s (take (Suc (Suc 0)) ?es))"
    by (simp only: t consumed_state_eval)
  have "calls (run simpleView ?s (take (Suc (Suc (Suc 0))) ?es)) = calls consumed_state"
    using C5_consumed_move_is_silent [of "Suc (Suc 0)" ?es simpleView ?s, OF _ m c] t
    by simp
  then show ?thesis
    by (simp add: consumed_state_eval) (simp add: ev_def)
qed

section \<open>Kinetic arming\<close>

text \<open>
  What the \<^verbatim>\<open>POINTER_1_UP\<close> does to the velocities in a state of the handler's type: out of
  \<^verbatim>\<open>SINGLE_POINTER_PAN\<close> it keeps the pan velocity and sets the zoom velocity to zero, out
  of \<^verbatim>\<open>SINGLE_POINTER_ZOOM\<close> it keeps the zoom velocity and sets the pan velocity to zero.
\<close>

lemma velocity_handleDoubleTap [simp]:
  "m_velocityPan (handleDoubleTap V p s) = m_velocityPan s"
  "m_velocityZoom (handleDoubleTap V p s) = m_velocityZoom s"
  "m_noDualPointerYet (handleDoubleTap V p s) = m_noDualPointerYet s"
  by (simp_all add: handleDoubleTap_def call_handleDoubleTapGesture_def Let_def
      split: option.splits prod.splits)

lemma pointer_1_up_pan:
  assumes "m_gestureMode s = SINGLE_POINTER_PAN" and "m_noDualPointerYet s"
  shows "m_velocityPan (onTouchEvent V now now2 POINTER_1_UP p q s) = m_velocityPan s"
    and "m_velocityZoom (onTouchEvent V now now2 POINTER_1_UP p q s) = 0"
  using assms
  by (simp_all add: onTouchEvent_def on_POINTER_1_UP_def update_pointer_count_def
      setVelocity_def Let_def)

lemma pointer_1_up_zoom:
  assumes "m_gestureMode s = SINGLE_POINTER_ZOOM" and "m_noDualPointerYet s"
  shows "m_velocityZoom (onTouchEvent V now now2 POINTER_1_UP p q s) = m_velocityZoom s"
    and "m_velocityPan (onTouchEvent V now now2 POINTER_1_UP p q s) = vec2 0 0"
  using assms
  by (simp_all add: onTouchEvent_def on_POINTER_1_UP_def update_pointer_count_def
      setVelocity_def Let_def)

section \<open>A duplicate pointer-1 down\<close>

lemma cancel_action_state:
  "onTouchEvent V now now2 CANCEL p q s =
     s\<lparr> m_pointersDown := 0, m_gestureMode := SINGLE_POINTER_CLICK_GUESS,
        m_velocityPan := vec2 0 0, m_velocityZoom := 0 \<rparr>"
  by (simp add: onTouchEvent_def on_CANCEL_def update_pointer_count_def setVelocity_def)

lemma on_POINTER_1_DOWN_forgets:
  "on_POINTER_1_DOWN V now p
     (s\<lparr> m_pointersDown := n, m_velocityPan := vp, m_velocityZoom := vz \<rparr>)
   = (on_POINTER_1_DOWN V now p s)\<lparr> m_pointersDown := n \<rparr>"
  by (simp add: on_POINTER_1_DOWN_def setVelocity_def Let_def call_onMapInteraction_def
      startSinglePointerZoom_def tapThreshold_def split: option.splits)

text \<open>
  Claim C9, as the code has it. A \<^verbatim>\<open>POINTER_1_DOWN\<close> is processed in the same way whether or
  not a pointer is already down: there is no implicit cancel, and the counter goes up by
  one, saturating at 2. When the mode is \<^verbatim>\<open>SINGLE_POINTER_CLICK_GUESS\<close>, as it is after
  the down of a first tap, the state that the duplicate down leaves differs from the
  state left by a \<^verbatim>\<open>CANCEL\<close> followed by that down in the counter only, which is 1 after
  the latter.
\<close>

theorem C9_duplicate_pointer_1_down:
  assumes "m_gestureMode s = SINGLE_POINTER_CLICK_GUESS"
  shows "m_pointersDown (onTouchEvent V now now2 POINTER_1_DOWN screenPos1 screenPos2 s)
           = min 2 (m_pointersDown s + 1)
       \<and> onTouchEvent V now now2 POINTER_1_DOWN screenPos1 screenPos2
           (onTouchEvent V now' now2' CANCEL q1 q2 s)
         = (onTouchEvent V now now2 POINTER_1_DOWN screenPos1 screenPos2 s)
             \<lparr> m_pointersDown := 1 \<rparr>"
proof -
  have "s\<lparr> m_pointersDown := 0, m_gestureMode := SINGLE_POINTER_CLICK_GUESS,
        m_velocityPan := vec2 0 0, m_velocityZoom := 0 \<rparr>
      = s\<lparr> m_pointersDown := 0, m_velocityPan := vec2 0 0, m_velocityZoom := 0 \<rparr>"
    using assms by simp
  then show ?thesis
    by (simp add: cancel_action_state)
       (simp add: onTouchEvent_def update_pointer_count_def on_POINTER_1_DOWN_forgets)
qed

text \<open>
  After a down and a duplicate down the counter is 2, not 1; with a \<^verbatim>\<open>CANCEL\<close> between
  the two it is 1.
\<close>

theorem C9_counterexample:
  "m_pointersDown (run simpleView (TouchHandler_new sv0 True 0)
      [ev POINTER_1_DOWN 100 100 (- 1) (- 1) 1000, ev POINTER_1_DOWN 100 100 (- 1) (- 1) 1500]) = 2
   \<and> m_pointersDown (run simpleView (TouchHandler_new sv0 True 0)
      [ev POINTER_1_DOWN 100 100 (- 1) (- 1) 1000, ev CANCEL (- 1) (- 1) (- 1) (- 1) 1400,
       ev POINTER_1_DOWN 100 100 (- 1) (- 1) 1500]) = 1"
  by (simp add: pointersDown_handle count_step_def ev_def TouchHandler_new_def)

theorem C9_witness:
  "m_gestureMode pressed_state = SINGLE_POINTER_CLICK_GUESS
   \<and> m_pointersDown pressed_state = 1
   \<and> m_pointersDown (onTouchEvent simpleView 1500000000 1500000000 POINTER_1_DOWN
        (ScreenPos 200 200) (ScreenPos (- 1) (- 1)) pressed_state) = 2
   \<and> m_pointersDown (onTouchEvent simpleView 1500000000 1500000000 POINTER_1_DOWN
        (ScreenPos 200 200) (ScreenPos (- 1) (- 1))
        (onTouchEvent simpleView 1400000000 1400000000 CANCEL
           (ScreenPos (- 1) (- 1)) (ScreenPos (- 1) (- 1)) pressed_state)) = 1"
  using C9_duplicate_pointer_1_down [of pressed_state simpleView 1500000000 1500000000
      "ScreenPos 200 200" "ScreenPos (- 1) (- 1)" 1400000000 1400000000
      "ScreenPos (- 1) (- 1)" "ScreenPos (- 1) (- 1)"]
  by (simp add: pressed_state_eval)

section \<open>The classification of a gesture with two pointers\<close>

lemma vec2_length_axis [simp]:
  "vec2_length (vec2 0 b) = \<bar>b\<bar>"
  "vec2_length (vec2 a 0) = \<bar>a\<bar>"
  by (simp_all add: vec2_length_def)

lemma dual_guess_state_eval:
  "m_gestureMode dual_guess_state = DUAL_POINTER_GUESS"
  "\<not> m_interactionConsumed dual_guess_state"
  "m_tiltEnabled dual_guess_state"
  "m_rotateEnabled dual_guess_state"
  "m_zoomEnabled dual_guess_state"
  "m_panningMode dual_guess_state = FREE"
  "m_dpi dual_guess_state = 160"
  "m_swipe1 dual_guess_state = vec2 0 0"
  "m_swipe2 dual_guess_state = vec2 0 0"
  "m_prevScreenPos1 dual_guess_state = ScreenPos 350 300"
  "m_prevScreenPos2 dual_guess_state = ScreenPos 500 300"
  "m_pointersDown dual_guess_state = 2"
  by (simp_all add: dual_guess_state_def dispatch_defs)

lemma guess_move:
  assumes "\<not> m_interactionConsumed s"
    and "m_gestureMode s = DUAL_POINTER_GUESS"
    and "m_tiltEnabled s"
    and "m_rotateEnabled s \<or> m_zoomEnabled s"
    and "\<bar>pos_y p1 - pos_y p2\<bar> / m_dpi s \<le> GUESS_MAX_DELTA_Y_INCHES"
  shows "m_swipe1 (onTouchEvent V now now2 MOVE p1 p2 s)
           = swipe_after (m_dpi s) (m_swipe1 s) (m_prevScreenPos1 s) p1"
    and "m_swipe2 (onTouchEvent V now now2 MOVE p1 p2 s)
           = swipe_after (m_dpi s) (m_swipe2 s) (m_prevScreenPos2 s) p2"
    and "m_gestureMode (onTouchEvent V now now2 MOVE p1 p2 s) =
          (let w1 = swipe_after (m_dpi s) (m_swipe1 s) (m_prevScreenPos1 s) p1;
               w2 = swipe_after (m_dpi s) (m_swipe2 s) (m_prevScreenPos2 s) p2
           in if ((vec2_length w1 > GUESS_MIN_SWIPE_LENGTH_OPPOSITE_INCHES
                     \<and> vec2_length (m_swipe1 s) > 0)
                  \<or> (vec2_length w2 > GUESS_MIN_SWIPE_LENGTH_OPPOSITE_INCHES
                     \<and> vec2_length (m_swipe2 s) > 0))
                 \<and> vec_y w1 * vec_y w2 \<le> 0
              then (if m_panningMode s = STICKY \<or> m_panningMode s = STICKY_FINAL
                    then DUAL_POINTER_ROTATE else DUAL_POINTER_FREE)
              else if (vec2_length w1 > GUESS_MIN_SWIPE_LENGTH_SAME_INCHES
                       \<or> vec2_length w2 > GUESS_MIN_SWIPE_LENGTH_SAME_INCHES)
                      \<and> vec_y w1 * vec_y w2 > 0
              then DUAL_POINTER_TILT
              else DUAL_POINTER_GUESS)"
  using assms
  by (auto simp add: onTouchEvent_def on_MOVE_def update_pointer_count_def
      dualPointerGuess_def dualPointerGuess_heuristic_def swipe_after_def Let_def)

text \<open>
  Claim C7, as the code has it. In the classification of a \<^verbatim>\<open>MOVE\<close> in
  \<^verbatim>\<open>DUAL_POINTER_GUESS\<close>, with both families enabled and the pointers at most one inch
  apart vertically: when one of the swipes is longer than 0.075 inch after the
  accumulation and was not zero before it, and the product of the vertical components
  of the two swipes is at most zero, the mode becomes \<^verbatim>\<open>DUAL_POINTER_FREE\<close> under the
  panning mode \<^verbatim>\<open>FREE\<close> and \<^verbatim>\<open>DUAL_POINTER_ROTATE\<close> under \<^verbatim>\<open>STICKY\<close> and \<^verbatim>\<open>STICKY_FINAL\<close>.
\<close>

theorem C7_opposite_swipes:
  assumes "\<not> m_interactionConsumed s"
    and "m_gestureMode s = DUAL_POINTER_GUESS"
    and "m_tiltEnabled s"
    and "m_rotateEnabled s \<or> m_zoomEnabled s"
    and "\<bar>pos_y screenPos1 - pos_y screenPos2\<bar> / m_dpi s \<le> GUESS_MAX_DELTA_Y_INCHES"
    and "(vec2_length (m_swipe1 (onTouchEvent V now now2 MOVE screenPos1 screenPos2 s))
            > GUESS_MIN_SWIPE_LENGTH_OPPOSITE_INCHES
          \<and> vec2_length (m_swipe1 s) > 0)
       \<or> (vec2_length (m_swipe2 (onTouchEvent V now now2 MOVE screenPos1 screenPos2 s))
            > GUESS_MIN_SWIPE_LENGTH_OPPOSITE_INCHES
          \<and> vec2_length (m_swipe2 s) > 0)"
    and "vec_y (m_swipe1 (onTouchEvent V now now2 MOVE screenPos1 screenPos2 s))
           * vec_y (m_swipe2 (onTouchEvent V now now2 MOVE screenPos1 screenPos2 s)) \<le> 0"
  shows "m_gestureMode (onTouchEvent V now now2 MOVE screenPos1 screenPos2 s)
           = (if m_panningMode s = FREE then DUAL_POINTER_FREE else DUAL_POINTER_ROTATE)"
proof -
  note g = guess_move [OF assms(1-5), of V now now2]
  have "m_panningMode s = FREE \<or> m_panningMode s = STICKY \<or> m_panningMode s = STICKY_FINAL"
    by (cases "m_panningMode s") simp_all
  then show ?thesis
    using assms(6,7) unfolding g by (auto simp add: Let_def)
qed

text \<open>
  The first \<^verbatim>\<open>MOVE\<close> after the second pointer went down: pointer 1 moves down by 32
  pixels, 0.2 inch, and pointer 2 stays. One swipe is longer than 0.075 inch and the
  product is zero, but the swipe was zero before this \<^verbatim>\<open>MOVE\<close>, and the mode stays
  \<^verbatim>\<open>DUAL_POINTER_GUESS\<close>.
\<close>

theorem C7_counterexample:
  "m_gestureMode dual_guess_state = DUAL_POINTER_GUESS
   \<and> \<not> m_interactionConsumed dual_guess_state
   \<and> m_tiltEnabled dual_guess_state \<and> m_rotateEnabled dual_guess_state
   \<and> m_zoomEnabled dual_guess_state \<and> m_panningMode dual_guess_state = FREE
   \<and> \<bar>pos_y (ScreenPos 350 332) - pos_y (ScreenPos 500 300)\<bar> / m_dpi dual_guess_state
        \<le> GUESS_MAX_DELTA_Y_INCHES
   \<and> m_swipe1 (handle simpleView (ev MOVE 350 332 500 300 1300) dual_guess_state) = vec2 0 (1 / 5)
   \<and> m_swipe2 (handle simpleView (ev MOVE 350 332 500 300 1300) dual_guess_state) = vec2 0 0
   \<and> vec2_length (m_swipe1 (handle simpleView (ev MOVE 350 332 500 300 1300) dual_guess_state))
        > GUESS_MIN_SWIPE_LENGTH_OPPOSITE_INCHES
   \<and> m_gestureMode (handle simpleView (ev MOVE 350 332 500 300 1300) dual_guess_state)
        = DUAL_POINTER_GUESS"
proof -
  have d: "\<bar>pos_y (ScreenPos 350 332) - pos_y (ScreenPos 500 300)\<bar> / m_dpi dual_guess_state
        \<le> GUESS_MAX_DELTA_Y_INCHES"
    by (simp add: dual_guess_state_eval GUESS_MAX_DELTA_Y_INCHES_def)
  have e: "handle simpleView (ev MOVE 350 332 500 300 1300) dual_guess_state
      = onTouchEvent simpleView 1300000000 1300000000 MOVE (ScreenPos 350 332) (ScreenPos 500 300)
          dual_guess_state"
    by (simp add: handle_def ev_def)
  note g = guess_move [of dual_guess_state "ScreenPos 350 332" "ScreenPos 500 300" simpleView
      1300000000 1300000000, OF _ _ _ _ d]
  show ?thesis
    unfolding e using d
    by (simp add: g dual_guess_state_eval swipe_after_def vec2_plus_def vec2_scale_def Let_def
        GUESS_MIN_SWIPE_LENGTH_OPPOSITE_INCHES_def GUESS_MIN_SWIPE_LENGTH_SAME_INCHES_def)
qed

lemma swiping_state_eval:
  "m_gestureMode swiping_state = DUAL_POINTER_GUESS"
  "\<not> m_interactionConsumed swiping_state"
  "m_tiltEnabled swiping_state"
  "m_rotateEnabled swiping_state"
  "m_panningMode swiping_state = FREE"
  "m_dpi swiping_state = 160"
  "m_swipe1 swiping_state = vec2 0 (1 / 40)"
  "m_swipe2 swiping_state = vec2 0 (- (1 / 40))"
  "m_prevScreenPos1 swiping_state = ScreenPos 350 304"
  "m_prevScreenPos2 swiping_state = ScreenPos 500 296"
proof -
  have d: "\<bar>pos_y (ScreenPos 350 304) - pos_y (ScreenPos 500 296)\<bar> / m_dpi dual_guess_state
        \<le> GUESS_MAX_DELTA_Y_INCHES"
    by (simp add: dual_guess_state_eval GUESS_MAX_DELTA_Y_INCHES_def)
  have e: "swiping_state
      = onTouchEvent simpleView 1300000000 1300000000 MOVE (ScreenPos 350 304) (ScreenPos 500 296)
          dual_guess_state"
    by (simp add: swiping_state_def handle_def ev_def)
  note g = guess_move [of dual_guess_state "ScreenPos 350 304" "ScreenPos 500 296" simpleView
      1300000000 1300000000, OF _ _ _ _ d]
  show "m_gestureMode swiping_state = DUAL_POINTER_GUESS"
    "m_swipe1 swiping_state = vec2 0 (1 / 40)"
    "m_swipe2 swiping_state = vec2 0 (- (1 / 40))"
    unfolding e
    by (simp_all add: g dual_guess_state_eval swipe_after_def vec2_plus_def vec2_scale_def Let_def
        GUESS_MIN_SWIPE_LENGTH_OPPOSITE_INCHES_def GUESS_MIN_SWIPE_LENGTH_SAME_INCHES_def)
  show "\<not> m_interactionConsumed swiping_state"
    "m_tiltEnabled swiping_state"
    "m_rotateEnabled swiping_state"
    "m_panningMode swiping_state = FREE"
    "m_dpi swiping_state = 160"
    "m_prevScreenPos1 swiping_state = ScreenPos 350 304"
    "m_prevScreenPos2 swiping_state = ScreenPos 500 296"
    unfolding e
    by (simp_all add: onTouchEvent_def on_MOVE_def update_pointer_count_def dualPointerGuess_def
        dualPointerGuess_heuristic_def Let_def dual_guess_state_eval)
qed

theorem C7_witness:
  "\<not> m_interactionConsumed swiping_state
   \<and> m_gestureMode swiping_state = DUAL_POINTER_GUESS
   \<and> m_tiltEnabled swiping_state \<and> m_rotateEnabled swiping_state
   \<and> m_swipe1 swiping_state = vec2 0 (1 / 40)
   \<and> m_swipe1 (onTouchEvent simpleView 1400000000 1400000000 MOVE
        (ScreenPos 350 320) (ScreenPos 500 280) swiping_state) = vec2 0 (1 / 8)
   \<and> m_swipe2 (onTouchEvent simpleView 1400000000 1400000000 MOVE
        (ScreenPos 350 320) (ScreenPos 500 280) swiping_state) = vec2 0 (- (1 / 8))
   \<and> m_panningMode swiping_state = FREE
   \<and> m_gestureMode (onTouchEvent simpleView 1400000000 1400000000 MOVE
        (ScreenPos 350 320) (ScreenPos 500 280) swiping_state) = DUAL_POINTER_FREE
   \<and> m_panningMode (setPanningMode STICKY swiping_state) = STICKY
   \<and> m_gestureMode (onTouchEvent simpleView 1400000000 1400000000 MOVE
        (ScreenPos 350 320) (ScreenPos 500 280) (setPanningMode STICKY swiping_state))
       = DUAL_POINTER_ROTATE"
proof -
  let ?p1 = "ScreenPos 350 320" and ?p2 = "ScreenPos 500 280"
  let ?t = "setPanningMode STICKY swiping_state"
  have sticky:
    "\<not> m_interactionConsumed ?t" "m_gestureMode ?t = DUAL_POINTER_GUESS"
    "m_tiltEnabled ?t" "m_rotateEnabled ?t \<or> m_zoomEnabled ?t"
    "m_dpi ?t = 160" "m_swipe1 ?t = vec2 0 (1 / 40)" "m_swipe2 ?t = vec2 0 (- (1 / 40))"
    "m_prevScreenPos1 ?t = ScreenPos 350 304" "m_prevScreenPos2 ?t = ScreenPos 500 296"
    "m_panningMode ?t = STICKY"
    by (simp_all add: setPanningMode_def swiping_state_eval)
  have d: "\<bar>pos_y ?p1 - pos_y ?p2\<bar> / m_dpi swiping_state \<le> GUESS_MAX_DELTA_Y_INCHES"
    by (simp add: swiping_state_eval GUESS_MAX_DELTA_Y_INCHES_def)
  have d': "\<bar>pos_y ?p1 - pos_y ?p2\<bar> / m_dpi ?t \<le> GUESS_MAX_DELTA_Y_INCHES"
    by (simp add: sticky GUESS_MAX_DELTA_Y_INCHES_def)
  have w: "m_swipe1 (onTouchEvent simpleView 1400000000 1400000000 MOVE ?p1 ?p2 swiping_state)
        = vec2 0 (1 / 8)"
    "m_swipe2 (onTouchEvent simpleView 1400000000 1400000000 MOVE ?p1 ?p2 swiping_state)
        = vec2 0 (- (1 / 8))"
    using d
    by (simp_all add: guess_move swiping_state_eval swipe_after_def vec2_plus_def vec2_scale_def)
  have w': "m_swipe1 (onTouchEvent simpleView 1400000000 1400000000 MOVE ?p1 ?p2 ?t)
        = vec2 0 (1 / 8)"
    "m_swipe2 (onTouchEvent simpleView 1400000000 1400000000 MOVE ?p1 ?p2 ?t)
        = vec2 0 (- (1 / 8))"
    using d'
    by (simp_all add: guess_move sticky swipe_after_def vec2_plus_def vec2_scale_def)
  have free: "m_gestureMode (onTouchEvent simpleView 1400000000 1400000000 MOVE ?p1 ?p2 swiping_state)
      = DUAL_POINTER_FREE"
    using C7_opposite_swipes [of swiping_state ?p1 ?p2 simpleView 1400000000 1400000000] d
    by (simp add: w swiping_state_eval GUESS_MIN_SWIPE_LENGTH_OPPOSITE_INCHES_def)
  have rot: "m_gestureMode (onTouchEvent simpleView 1400000000 1400000000 MOVE ?p1 ?p2 ?t)
      = DUAL_POINTER_ROTATE"
    using C7_opposite_swipes [of ?t ?p1 ?p2 simpleView 1400000000 1400000000] d'
    by (simp add: w' sticky GUESS_MIN_SWIPE_LENGTH_OPPOSITE_INCHES_def)
  show ?thesis
    using free rot w by (simp add: swiping_state_eval sticky)
qed

section \<open>The double-tap drag\<close>

lemma double_tap_drag_state_eval:
  "m_gestureMode double_tap_drag_state = SINGLE_POINTER_ZOOM"
  "\<not> m_interactionConsumed double_tap_drag_state"
  "m_doubleTapDragEnabled double_tap_drag_state"
  "m_doubleTapStartPos double_tap_drag_state = ScreenPos 300 300"
  "m_prevScreenPos1 double_tap_drag_state = ScreenPos 300 300"
  "m_view double_tap_drag_state = sv0"
  "calls double_tap_drag_state = []"
  by (simp_all add: double_tap_drag_state_def dispatch_defs)

lemma single_zoom_move:
  assumes "\<not> m_interactionConsumed s" and "m_gestureMode s = SINGLE_POINTER_ZOOM"
  shows "onTouchEvent V now now2 MOVE p1 p2 s = singlePointerZoom V p1 s"
  using assms by (simp add: onTouchEvent_def on_MOVE_def update_pointer_count_def)

lemma vec2_cancel: "vec2_minus a b = vec2_minus c d \<Longrightarrow> vec2_plus a (vec2_minus d b) = c"
  by (cases a; cases b; cases c; cases d) (simp add: vec2_minus_def vec2_plus_def)

text \<open>
  Claim C2, as the code has it. A \<^verbatim>\<open>MOVE\<close> that is dispatched in the mode
  \<^verbatim>\<open>SINGLE_POINTER_ZOOM\<close> while the double-tap drag is enabled zooms the view by
  \<open>(pos.y - prev1.y) * 0.005\<close>, translates it by \<open>start - end\<close>, where \<open>start\<close> and \<open>end\<close>
  are \<open>screenToGroundPlane\<close> of \<^verbatim>\<open>m_doubleTapStartPos\<close> before and after the zoom, and
  stores the position in \<^verbatim>\<open>m_prevScreenPos1\<close>. The ground-plane point under the anchor is
  preserved for every view in which translating by \<open>d\<close> moves the point under each
  screen position by \<open>d\<close>, and in which that point and \<open>screenToGroundPlane\<close> differ by
  an offset (the position of the view) that zooming does not change.
\<close>

theorem C2_single_pointer_zoom:
  assumes "\<not> m_interactionConsumed s"
    and "m_gestureMode s = SINGLE_POINTER_ZOOM"
    and "m_doubleTapDragEnabled s"
    and "\<forall>d v px py e. ground (view_translate V d v) px py e = vec2_plus (ground v px py e) d"
    and "\<forall>z v px py e.
           vec2_minus (ground (view_zoom V z v) px py e)
             (view_screenToGroundPlane V (view_zoom V z v) px py e)
           = vec2_minus (ground v px py e) (view_screenToGroundPlane V v px py e)"
  shows "(let ax = pos_x (m_doubleTapStartPos s);
              ay = pos_y (m_doubleTapStartPos s);
              elev = view_screenPositionToLngLat V (m_view s) ax ay;
              zoomDelta = (pos_y screenPos1 - pos_y (m_prevScreenPos1 s)) * (5 / 1000);
              start = view_screenToGroundPlane V (m_view s) ax ay elev;
              zoomed = view_zoom V zoomDelta (m_view s);
              end = view_screenToGroundPlane V zoomed ax ay elev;
              s' = onTouchEvent V now now2 MOVE screenPos1 screenPos2 s
          in calls s' = calls s @ [Zoom zoomDelta, Translate (vec2_minus start end)]
             \<and> m_view s' = view_translate V (vec2_minus start end) zoomed
             \<and> m_prevScreenPos1 s' = screenPos1
             \<and> m_doubleTapStartPos s' = m_doubleTapStartPos s
             \<and> ground (m_view s') ax ay elev = ground (m_view s) ax ay elev)"
proof -
  define ax where "ax = pos_x (m_doubleTapStartPos s)"
  define ay where "ay = pos_y (m_doubleTapStartPos s)"
  define elev where "elev = view_screenPositionToLngLat V (m_view s) ax ay"
  define zoomDelta where "zoomDelta = (pos_y screenPos1 - pos_y (m_prevScreenPos1 s)) * (5 / 1000)"
  define start where "start = view_screenToGroundPlane V (m_view s) ax ay elev"
  define zoomed where "zoomed = view_zoom V zoomDelta (m_view s)"
  define end' where "end' = view_screenToGroundPlane V zoomed ax ay elev"
  define s' where "s' = onTouchEvent V now now2 MOVE screenPos1 screenPos2 s"
  have s': "s' = singlePointerZoom V screenPos1 s"
    unfolding s'_def using assms(1,2) by (rule single_zoom_move)
  have c: "calls s' = calls s @ [Zoom zoomDelta, Translate (vec2_minus start end')]"
    and v: "m_view s' = view_translate V (vec2_minus start end') zoomed"
    and p: "m_prevScreenPos1 s' = screenPos1"
    and a: "m_doubleTapStartPos s' = m_doubleTapStartPos s"
    using assms(3)
    by (simp_all add: s' singlePointerZoom_def call_zoom_def call_translate_def Let_def
        SINGLE_POINTER_ZOOM_SENSITIVITY_def ax_def ay_def elev_def zoomDelta_def start_def
        zoomed_def end'_def)
  have "vec2_minus (ground zoomed ax ay elev) end'
      = vec2_minus (ground (m_view s) ax ay elev) start"
    unfolding zoomed_def end'_def start_def using assms(5) by blast
  then have "vec2_plus (ground zoomed ax ay elev) (vec2_minus start end')
      = ground (m_view s) ax ay elev"
    by (rule vec2_cancel)
  moreover have "ground (m_view s') ax ay elev
      = vec2_plus (ground zoomed ax ay elev) (vec2_minus start end')"
    unfolding v using assms(4) by blast
  ultimately have g: "ground (m_view s') ax ay elev = ground (m_view s) ax ay elev"
    by simp
  show ?thesis
    using c v p a g
    unfolding Let_def ax_def ay_def elev_def zoomDelta_def start_def zoomed_def end'_def s'_def
    by simp
qed

lemma simpleView_ground_translate:
  "\<forall>d v px py e. simpleView_ground (view_translate simpleView d v) px py e
      = vec2_plus (simpleView_ground v px py e) d"
  by (simp add: simpleView_ground_def simpleView_def vec2_plus_def)

lemma simpleView_ground_zoom:
  "\<forall>z v px py e.
     vec2_minus (simpleView_ground (view_zoom simpleView z v) px py e)
       (view_screenToGroundPlane simpleView (view_zoom simpleView z v) px py e)
     = vec2_minus (simpleView_ground v px py e) (view_screenToGroundPlane simpleView v px py e)"
  by (simp add: simpleView_ground_def simpleView_def vec2_plus_def vec2_minus_def)

lemma simpleView_projection:
  "view_screenToGroundPlane simpleView v px py e
     = vec2 ((px - 400) / 2 powr sv_zoom v) ((py - 300) / 2 powr sv_zoom v)"
  "view_screenPositionToLngLat simpleView v px py = 0"
  by (simp_all add: simpleView_def)

theorem C2_witness:
  "\<not> m_interactionConsumed double_tap_drag_state
   \<and> m_gestureMode double_tap_drag_state = SINGLE_POINTER_ZOOM
   \<and> m_doubleTapDragEnabled double_tap_drag_state
   \<and> calls (onTouchEvent simpleView 1300000000 1300000000 MOVE
        (ScreenPos 300 500) (ScreenPos (- 1) (- 1)) double_tap_drag_state)
       = [Zoom 1, Translate (vec2 (- 50) 0)]
   \<and> m_prevScreenPos1 (onTouchEvent simpleView 1300000000 1300000000 MOVE
        (ScreenPos 300 500) (ScreenPos (- 1) (- 1)) double_tap_drag_state) = ScreenPos 300 500
   \<and> simpleView_ground (m_view double_tap_drag_state) 300 300 0 = vec2 (- 100) 0
   \<and> simpleView_ground (m_view (onTouchEvent simpleView 1300000000 1300000000 MOVE
        (ScreenPos 300 500) (ScreenPos (- 1) (- 1)) double_tap_drag_state)) 300 300 0
       = vec2 (- 100) 0"
proof -
  have g0: "simpleView_ground (m_view double_tap_drag_state) 300 300 0 = vec2 (- 100) 0"
    by (simp add: double_tap_drag_state_eval simpleView_ground_def simpleView_projection sv0_def
        vec2_plus_def)
  show ?thesis
    using C2_single_pointer_zoom [of double_tap_drag_state simpleView_ground simpleView
        "ScreenPos 300 500" 1300000000 1300000000 "ScreenPos (- 1) (- 1)",
        OF _ _ _ simpleView_ground_translate simpleView_ground_zoom] g0
    by (simp add: double_tap_drag_state_eval Let_def simpleView_projection simpleView_fields
        sv0_def vec2_minus_def vec2_plus_def simpleView_ground_def)
qed

text \<open>
  The double-tap drag is disabled while the gesture is in progress: the \<^verbatim>\<open>MOVE\<close> in the
  mode \<^verbatim>\<open>SINGLE_POINTER_ZOOM\<close> makes no call, and \<^verbatim>\<open>m_prevScreenPos1\<close> stays where it was.
\<close>

theorem C2_counterexample:
  "m_gestureMode (setDoubleTapDragEnabled False double_tap_drag_state) = SINGLE_POINTER_ZOOM
   \<and> \<not> m_interactionConsumed (setDoubleTapDragEnabled False double_tap_drag_state)
   \<and> calls (setDoubleTapDragEnabled False double_tap_drag_state) = []
   \<and> calls (onTouchEvent simpleView 1300000000 1300000000 MOVE
        (ScreenPos 300 400) (ScreenPos (- 1) (- 1))
        (setDoubleTapDragEnabled False double_tap_drag_state)) = []
   \<and> m_view (onTouchEvent simpleView 1300000000 1300000000 MOVE
        (ScreenPos 300 400) (ScreenPos (- 1) (- 1))
        (setDoubleTapDragEnabled False double_tap_drag_state)) = sv0
   \<and> m_prevScreenPos1 (onTouchEvent simpleView 1300000000 1300000000 MOVE
        (ScreenPos 300 400) (ScreenPos (- 1) (- 1))
        (setDoubleTapDragEnabled False double_tap_drag_state)) = ScreenPos 300 300"
  by (simp add: single_zoom_move singlePointerZoom_def setDoubleTapDragEnabled_def
      double_tap_drag_state_eval)

section \<open>The velocities in the runs of the handler\<close>

text \<open>
  Every assignment to a velocity in the handler writes zero, the value that the velocity
  already has, or a multiple of it: this revision of the code has no estimator of the
  velocity. A handler at rest therefore stays at rest under every touch event, under
  \<^verbatim>\<open>update\<close>, under \<^verbatim>\<open>cancel\<close> and under the setters, and a new handler is at rest.
\<close>

lemma rest_call [simp]:
  "at_rest (call_translate V d s) = at_rest s"
  "at_rest (call_zoom V z s) = at_rest s"
  "at_rest (call_yaw V a s) = at_rest s"
  "at_rest (call_pitch V a s) = at_rest s"
  "at_rest (call_handleDoubleTapGesture V px py out s) = at_rest s"
  "at_rest (call_onMapInteraction b1 b2 b3 b4 s) = at_rest s"
  by (simp_all add: at_rest_def call_translate_def call_zoom_def call_yaw_def call_pitch_def
      call_handleDoubleTapGesture_def call_onMapInteraction_def split: option.splits)

lemma rest_transform [simp]:
  "at_rest (singlePointerPan V p s) = at_rest s"
  "at_rest (startSinglePointerZoom V p s) = at_rest s"
  "at_rest (singlePointerZoom V p s) = at_rest s"
  "at_rest (handleSingleTap p s) = at_rest s"
  "at_rest (handleLongPress p s) = at_rest s"
  "at_rest (handleDoubleTap V p s) = at_rest s"
  "at_rest (handleDualTap V p q s) = at_rest s"
  "at_rest (startDualPointer p q s) = at_rest s"
  "at_rest (dualPointerTilt V p s) = at_rest s"
  "at_rest (dualPointerGuess p q s) = at_rest s"
  "at_rest (dualPointerPan V p q r sc s) = at_rest s"
  by (simp_all add: at_rest_def singlePointerPan_def startSinglePointerZoom_def
      singlePointerZoom_def handleSingleTap_def handleLongPress_def handleDoubleTap_def
      handleDualTap_def startDualPointer_def dualPointerTilt_def dualPointerGuess_def
      dualPointerGuess_heuristic_def dualPointerPan_def
      call_translate_def call_zoom_def call_yaw_def call_pitch_def
      call_handleDoubleTapGesture_def Let_def split: option.splits prod.splits)

lemma rest_record [simp]:
  "at_rest (s\<lparr> m_gestureMode := m \<rparr>) = at_rest s"
  "at_rest (s\<lparr> m_interactionConsumed := c \<rparr>) = at_rest s"
  "at_rest (s\<lparr> m_prevScreenPos1 := p \<rparr>) = at_rest s"
  "at_rest (s\<lparr> m_prevScreenPos2 := p \<rparr>) = at_rest s"
  "at_rest (s\<lparr> m_dualPointerReleaseTime := t \<rparr>) = at_rest s"
  "at_rest (s\<lparr> m_noDualPointerYet := c \<rparr>) = at_rest s"
  "at_rest (s\<lparr> m_pointersDown := n \<rparr>) = at_rest s"
  by (simp_all add: at_rest_def)

lemma rest_onTouchEvent:
  "at_rest s \<Longrightarrow> at_rest (onTouchEvent V now now2 a p q s)"
proof (cases a)
  case POINTER_1_DOWN
  then show ?thesis
    by (simp add: onTouchEvent_def update_pointer_count_def on_POINTER_1_DOWN_def Let_def)
       (simp add: at_rest_def setVelocity_def)
next
  case POINTER_2_DOWN
  assume "at_rest s"
  then show ?thesis using POINTER_2_DOWN
    by (simp add: onTouchEvent_def update_pointer_count_def on_POINTER_2_DOWN_def Let_def
        split: GestureMode.splits)
next
  case MOVE
  assume "at_rest s"
  then show ?thesis using MOVE
    by (simp add: onTouchEvent_def update_pointer_count_def on_MOVE_def Let_def
        split: GestureMode.splits)
next
  case CANCEL
  then show ?thesis
    by (simp add: onTouchEvent_def update_pointer_count_def on_CANCEL_def at_rest_def
        setVelocity_def)
next
  case POINTER_1_UP
  assume "at_rest s"
  then show ?thesis using POINTER_1_UP
    by (simp add: onTouchEvent_def update_pointer_count_def on_POINTER_1_UP_def Let_def
        split: GestureMode.splits)
       (auto simp add: at_rest_def setVelocity_def)
next
  case POINTER_2_UP
  assume "at_rest s"
  then show ?thesis using POINTER_2_UP
    by (simp add: onTouchEvent_def update_pointer_count_def on_POINTER_2_UP_def Let_def
        split: GestureMode.splits)
qed





lemma rest_run: "at_rest s \<Longrightarrow> at_rest (run V s es)"
  by (induction es arbitrary: s) (simp_all add: handle_def rest_onTouchEvent)

section \<open>How long an interaction stays consumed\<close>

text \<open>
  When the listener consumes an interaction the mode is \<^verbatim>\<open>SINGLE_POINTER_CLICK_GUESS\<close> or
  \<^verbatim>\<open>DUAL_POINTER_CLICK_GUESS\<close>. From there \<^verbatim>\<open>m_interactionConsumed\<close> stays set until the next
  \<^verbatim>\<open>POINTER_1_DOWN\<close>: no other action clears it.
\<close>

lemma consumed_guess_step:
  assumes "consumed_guess s" and "a \<noteq> POINTER_1_DOWN"
  shows "consumed_guess (onTouchEvent V now now2 a p q s)"
  using assms
  by (cases a)
     (auto simp add: consumed_guess_def onTouchEvent_def update_pointer_count_def
        on_POINTER_2_DOWN_def on_MOVE_def on_CANCEL_def on_POINTER_1_UP_def on_POINTER_2_UP_def
        setVelocity_def handleSingleTap_def handleLongPress_def handleDualTap_def
        call_handleDoubleTapGesture_def Let_def split: option.splits prod.splits)

lemma consumed_guess_run:
  assumes "consumed_guess s" and "\<forall>e \<in> set es. in_action e \<noteq> POINTER_1_DOWN"
  shows "consumed_guess (run V s es)"
  using assms
  by (induction es arbitrary: s) (simp_all add: handle_def consumed_guess_step)

lemma consumed_frame [simp]:
  "m_interactionConsumed (singlePointerPan V p s) = m_interactionConsumed s"
  "m_interactionConsumed (singlePointerZoom V p s) = m_interactionConsumed s"
  "m_interactionConsumed (dualPointerTilt V p s) = m_interactionConsumed s"
  "m_interactionConsumed (dualPointerGuess p q s) = m_interactionConsumed s"
  "m_interactionConsumed (dualPointerPan V p q r sc s) = m_interactionConsumed s"
  by (simp_all add: singlePointerPan_def singlePointerZoom_def dualPointerTilt_def
      dualPointerGuess_def dualPointerGuess_heuristic_def dualPointerPan_def
      call_translate_def call_zoom_def call_yaw_def call_pitch_def Let_def)

lemma listener_consumes:
  assumes "m_interactionConsumed (onTouchEvent V now now2 a p q s)"
    and "\<not> m_interactionConsumed s \<or> a = POINTER_1_DOWN"
  shows "consumed_guess (onTouchEvent V now now2 a p q s)"
  using assms
  by (cases a; cases "m_gestureMode s")
     (auto simp add: consumed_guess_def onTouchEvent_def update_pointer_count_def
        on_POINTER_1_DOWN_def on_POINTER_2_DOWN_def on_MOVE_def on_CANCEL_def
        on_POINTER_1_UP_def on_POINTER_2_UP_def
        setVelocity_def handleSingleTap_def handleLongPress_def startDualPointer_def
        call_onMapInteraction_def startSinglePointerZoom_def Let_def
        split: option.splits prod.splits if_splits)

section \<open>The kinetic driver in the states that the handler reaches\<close>

lemma rest_setters [simp]:
  "at_rest (setView v s) = at_rest s"
  "at_rest (setMap mp s) = at_rest s"
  "at_rest (setDpi dpi s) = at_rest s"
  "at_rest (setPanningMode mode s) = at_rest s"
  "at_rest (setMapClickListener cl s) = at_rest s"
  "at_rest (setMapInteractionListener il s) = at_rest s"
  "at_rest (setGesturesEnabled b1 b2 b3 b4 b5 b6 s) = at_rest s"
  "at_rest (setZoomEnabled b s) = at_rest s"
  "at_rest (setPanEnabled b s) = at_rest s"
  "at_rest (setDoubleTapEnabled b s) = at_rest s"
  "at_rest (setDoubleTapDragEnabled b s) = at_rest s"
  "at_rest (setTiltEnabled b s) = at_rest s"
  "at_rest (setRotateEnabled b s) = at_rest s"
  by (simp_all add: at_rest_def setView_def setMap_def setDpi_def setPanningMode_def
      setMapClickListener_def setMapInteractionListener_def setGesturesEnabled_def
      setZoomEnabled_def setPanEnabled_def setDoubleTapEnabled_def setDoubleTapDragEnabled_def
      setTiltEnabled_def setRotateEnabled_def)
















end
